theory Spec2Isabelle
  imports Main
begin

section \<open>Go library functions used by the service\<close>

text \<open>
  Go strings are byte sequences; they are modelled as \<open>string\<close> (a list of 8-bit
  characters), so \<open>=\<close> on them is Go's \<open>==\<close>: bytewise and case-sensitive.
\<close>

subsection \<open>Package strings\<close>

fun HasPrefix :: "string \<Rightarrow> string \<Rightarrow> bool" where
  "HasPrefix s [] = True"
| "HasPrefix [] (p # ps) = False"
| "HasPrefix (c # cs) (p # ps) = (c = p \<and> HasPrefix cs ps)"

definition HasSuffix :: "string \<Rightarrow> string \<Rightarrow> bool" where
  "HasSuffix s p = HasPrefix (rev s) (rev p)"

text \<open>
  \<open>strings.Index\<close> and \<open>strings.LastIndex\<close>: the byte index of the first (last)
  occurrence of \<open>sub\<close> in \<open>s\<close>, or \<open>-1\<close>.
\<close>

fun Index :: "string \<Rightarrow> string \<Rightarrow> int" where
  "Index [] sub = (if sub = [] then 0 else -1)"
| "Index (c # cs) sub =
     (if HasPrefix (c # cs) sub then 0
      else (let i = Index cs sub in if i < 0 then -1 else i + 1))"

fun LastIndex :: "string \<Rightarrow> string \<Rightarrow> int" where
  "LastIndex [] sub = (if sub = [] then 0 else -1)"
| "LastIndex (c # cs) sub =
     (let i = LastIndex cs sub in
      if 0 \<le> i then i + 1
      else if HasPrefix (c # cs) sub then 0 else -1)"

text \<open>
  The slice expression \<open>s[lo:hi]\<close>; the code only uses it with
  \<open>0 \<le> lo \<le> hi \<le> len(s)\<close>, where Go does not panic.
\<close>

definition substring :: "string \<Rightarrow> nat \<Rightarrow> nat \<Rightarrow> string" where
  "substring s lo hi = take (hi - lo) (drop lo s)"

text \<open>
  \<open>strings.Split(s, sep)\<close> for a separator of one byte (the code splits at
  \<open>","\<close>). The result is never empty: without a separator it is \<open>[s]\<close>.
\<close>

fun Split :: "string \<Rightarrow> char \<Rightarrow> string list" where
  "Split [] sep = [[]]"
| "Split (c # cs) sep =
     (if c = sep then [] # Split cs sep
      else (case Split cs sep of
              [] \<Rightarrow> [[c]]
            | x # xs \<Rightarrow> (c # x) # xs))"

text \<open>
  \<open>strings.TrimSpace\<close> removes leading and trailing white space as
  \<open>unicode.IsSpace\<close> defines it. \<open>spaceRunes\<close> lists the UTF-8 encodings of these
  code points: tab, LF, VT, FF, CR, space, U+0085, U+00A0, U+1680, U+2000 to U+200A,
  U+2028, U+2029, U+202F, U+205F and U+3000. UTF-8 is self-synchronising, so the
  first (last) rune of \<open>s\<close> is white space exactly when one of these encodings is a
  prefix (suffix) of \<open>s\<close>.
\<close>

definition spaceRunes :: "string list" where
  "spaceRunes =
     [[CHR 0x09], [CHR 0x0A], [CHR 0x0B], [CHR 0x0C], [CHR 0x0D], [CHR 0x20],
      [CHR 0xC2, CHR 0x85], [CHR 0xC2, CHR 0xA0],
      [CHR 0xE1, CHR 0x9A, CHR 0x80],
      [CHR 0xE2, CHR 0x80, CHR 0x80], [CHR 0xE2, CHR 0x80, CHR 0x81],
      [CHR 0xE2, CHR 0x80, CHR 0x82], [CHR 0xE2, CHR 0x80, CHR 0x83],
      [CHR 0xE2, CHR 0x80, CHR 0x84], [CHR 0xE2, CHR 0x80, CHR 0x85],
      [CHR 0xE2, CHR 0x80, CHR 0x86], [CHR 0xE2, CHR 0x80, CHR 0x87],
      [CHR 0xE2, CHR 0x80, CHR 0x88], [CHR 0xE2, CHR 0x80, CHR 0x89],
      [CHR 0xE2, CHR 0x80, CHR 0x8A],
      [CHR 0xE2, CHR 0x80, CHR 0xA8], [CHR 0xE2, CHR 0x80, CHR 0xA9],
      [CHR 0xE2, CHR 0x80, CHR 0xAF], [CHR 0xE2, CHR 0x81, CHR 0x9F],
      [CHR 0xE3, CHR 0x80, CHR 0x80]]"

text \<open>The width in bytes of the white-space rune \<open>s\<close> starts (ends) with; 0 if none.\<close>

definition leadingSpace :: "string \<Rightarrow> nat" where
  "leadingSpace s = (case find (HasPrefix s) spaceRunes of None \<Rightarrow> 0 | Some p \<Rightarrow> length p)"

definition trailingSpace :: "string \<Rightarrow> nat" where
  "trailingSpace s = (case find (HasSuffix s) spaceRunes of None \<Rightarrow> 0 | Some p \<Rightarrow> length p)"

function TrimLeft :: "string \<Rightarrow> string" where
  "TrimLeft s = (if leadingSpace s = 0 then s else TrimLeft (drop (leadingSpace s) s))"
  by pat_completeness auto
termination
proof (relation "measure length")
  fix s :: string
  assume "leadingSpace s \<noteq> 0"
  moreover have "leadingSpace [] = 0"
    by (simp add: leadingSpace_def spaceRunes_def)
  ultimately have "s \<noteq> []" by auto
  with \<open>leadingSpace s \<noteq> 0\<close> show "(drop (leadingSpace s) s, s) \<in> measure length"
    by simp
qed simp

function TrimRight :: "string \<Rightarrow> string" where
  "TrimRight s =
     (if trailingSpace s = 0 then s else TrimRight (take (length s - trailingSpace s) s))"
  by pat_completeness auto
termination
proof (relation "measure length")
  fix s :: string
  assume "trailingSpace s \<noteq> 0"
  moreover have "trailingSpace [] = 0"
    by (simp add: trailingSpace_def HasSuffix_def spaceRunes_def)
  ultimately have "s \<noteq> []" by auto
  with \<open>trailingSpace s \<noteq> 0\<close> show "(take (length s - trailingSpace s) s, s) \<in> measure length"
    by simp
qed simp

declare TrimLeft.simps [simp del] TrimRight.simps [simp del]

definition TrimSpace :: "string \<Rightarrow> string" where
  "TrimSpace s = TrimRight (TrimLeft s)"

text \<open>
  \<open>strings.ToUpper\<close> on the ASCII letters; bytes outside \<open>a\<close>..\<open>z\<close> are kept
  (the mapping of non-ASCII letters is not modelled).
\<close>

definition upperChar :: "char \<Rightarrow> char" where
  "upperChar c =
     (case map_of (zip ''abcdefghijklmnopqrstuvwxyz'' ''ABCDEFGHIJKLMNOPQRSTUVWXYZ'') c of
        Some u \<Rightarrow> u
      | None \<Rightarrow> c)"

definition ToUpper :: "string \<Rightarrow> string" where
  "ToUpper s = map upperChar s"

definition lowerChar :: "char \<Rightarrow> char" where
  "lowerChar c =
     (case map_of (zip ''ABCDEFGHIJKLMNOPQRSTUVWXYZ'' ''abcdefghijklmnopqrstuvwxyz'') c of
        Some l \<Rightarrow> l
      | None \<Rightarrow> c)"

subsection \<open>Package fmt: the verb \<open>%d\<close>\<close>

fun digits :: "nat \<Rightarrow> string" where
  "digits n =
     (if n < 10 then [''0123456789'' ! n]
      else digits (n div 10) @ [''0123456789'' ! (n mod 10)])"

declare digits.simps [simp del]

subsection \<open>Package encoding/json: decoding\<close>

text \<open>
  A body is read by \<open>json.NewDecoder(body).Decode(&v)\<close>. The model starts from the
  first JSON value of the body (\<open>None\<close> when \<open>Decode\<close> finds no well-formed JSON
  value at the start of the body and returns an error) and follows \<open>encoding/json\<close>
  in decoding that value into a struct: \<open>null\<close> leaves a struct or a string as it
  is and sets a slice to nil, an object sets the fields whose tag matches a key, the
  members being taken in order so that a repeated key is decoded again into the
  field as the earlier member left it, unknown keys are skipped, and a value of the
  wrong JSON type for its target is an error. All fields the service decodes are
  strings or string slices, so every JSON number is of the wrong type and numbers
  carry no value here.
\<close>

datatype json = JNull | JBool bool | JNumber | JString string
  | JArray "json list" | JObject "(string \<times> json) list"

datatype decode_error = SyntaxError | UnmarshalTypeError

text \<open>
  A key matches a field when it equals the tag or when both have the same fold.
  \<open>encoding/json\<close> folds by Unicode simple case folding; the two letters outside
  ASCII that fold to an ASCII letter are U+017F (bytes C5 BF), which folds with
  \<open>s\<close>, and U+212A (bytes E2 84 AA), which folds with \<open>k\<close>. The library folds to
  upper case; all tags of the service are lower-case ASCII, so the model folds the
  key to lower case and compares it with the tag, which decides the same matches.
  Other bytes outside ASCII are kept and match no tag.
\<close>

fun foldName :: "string \<Rightarrow> string" where
  "foldName [] = []"
| "foldName (c # cs) =
     (if c = CHR 0xC5 \<and> HasPrefix cs [CHR 0xBF] then CHR ''s'' # foldName (drop 1 cs)
      else if c = CHR 0xE2 \<and> HasPrefix cs [CHR 0x84, CHR 0xAA]
        then CHR ''k'' # foldName (drop 2 cs)
      else lowerChar c # foldName cs)"

text \<open>Decoding into a \<open>string\<close>: \<open>cur\<close> is the value the target holds so far.\<close>

fun decodeString :: "string \<Rightarrow> json \<Rightarrow> decode_error + string" where
  "decodeString cur JNull = Inr cur"
| "decodeString cur (JString s) = Inr s"
| "decodeString cur j = Inl UnmarshalTypeError"

text \<open>
  A \<open>[]string\<close> while it is decoded: its backing array, as far as it has been
  written, and its length. The elements of the backing array beyond the length are
  what an earlier, longer array left there. A nil slice and an empty slice are both
  of length 0: the code only ranges over slices and takes their \<open>len\<close>, which do
  not tell them apart.
\<close>

record StringSlice =
  backing :: "string list"
  sliceLen :: nat

definition nilSlice :: StringSlice where
  "nilSlice = \<lparr>backing = [], sliceLen = 0\<rparr>"

definition sliceValue :: "StringSlice \<Rightarrow> string list" where
  "sliceValue s = take (sliceLen s) (backing s)"

text \<open>
  The elements of a JSON array, decoded one after the other into the elements of the
  backing array \<open>mem\<close>: \<open>encoding/json\<close> extends the slice by one element at a time
  and decodes into the element it finds there, so a \<open>null\<close> keeps what the element
  held. Beyond the backing array a new element is the empty string. The result is
  the new backing array: the decoded elements, then what is left of \<open>mem\<close>.
\<close>

fun decodeElems :: "string list \<Rightarrow> json list \<Rightarrow> decode_error + string list" where
  "decodeElems mem [] = Inr mem"
| "decodeElems mem (j # js) =
     (case decodeString (case mem of [] \<Rightarrow> [] | m # ms \<Rightarrow> m) j of
        Inl e \<Rightarrow> Inl e
      | Inr s \<Rightarrow>
          (case decodeElems (case mem of [] \<Rightarrow> [] | m # ms \<Rightarrow> ms) js of
             Inl e \<Rightarrow> Inl e
           | Inr mem' \<Rightarrow> Inr (s # mem')))"

text \<open>
  Decoding into a \<open>[]string\<close>: \<open>null\<close> sets it to nil, an empty array to a new
  empty slice, and an array of \<open>n\<close> elements to the first \<open>n\<close> elements of the
  backing array after \<open>decodeElems\<close>.
\<close>

fun decodeStrings :: "StringSlice \<Rightarrow> json \<Rightarrow> decode_error + StringSlice" where
  "decodeStrings cur JNull = Inr nilSlice"
| "decodeStrings cur (JArray js) =
     (if js = [] then Inr nilSlice
      else (case decodeElems (backing cur) js of
              Inl e \<Rightarrow> Inl e
            | Inr mem' \<Rightarrow> Inr \<lparr>backing = mem', sliceLen = length js\<rparr>))"
| "decodeStrings cur j = Inl UnmarshalTypeError"

text \<open>
  The members of an object, in order, decoded into the string fields (string-slice
  fields) with the given tags; \<open>cur\<close> maps each tag to the field's value so far.
\<close>

fun decodeStringFields ::
  "string list \<Rightarrow> (string \<Rightarrow> string) \<Rightarrow> (string \<times> json) list \<Rightarrow> decode_error + (string \<Rightarrow> string)" where
  "decodeStringFields tags cur [] = Inr cur"
| "decodeStringFields tags cur ((k, v) # kvs) =
     (if foldName k \<in> set tags then
        (case decodeString (cur (foldName k)) v of
           Inl e \<Rightarrow> Inl e
         | Inr s \<Rightarrow> decodeStringFields tags (cur(foldName k := s)) kvs)
      else decodeStringFields tags cur kvs)"

fun decodeSliceFields ::
  "string list \<Rightarrow> (string \<Rightarrow> StringSlice) \<Rightarrow> (string \<times> json) list \<Rightarrow> decode_error + (string \<Rightarrow> StringSlice)" where
  "decodeSliceFields tags cur [] = Inr cur"
| "decodeSliceFields tags cur ((k, v) # kvs) =
     (if foldName k \<in> set tags then
        (case decodeStrings (cur (foldName k)) v of
           Inl e \<Rightarrow> Inl e
         | Inr ss \<Rightarrow> decodeSliceFields tags (cur(foldName k := ss)) kvs)
      else decodeSliceFields tags cur kvs)"

text \<open>
  The first JSON value of a body, decoded into a struct of such fields, all of them
  zero at the start. The slice fields are returned as their values.
\<close>

definition decodeStringStruct :: "string list \<Rightarrow> json option \<Rightarrow> decode_error + (string \<Rightarrow> string)" where
  "decodeStringStruct tags b =
     (case b of
        None \<Rightarrow> Inl SyntaxError
      | Some JNull \<Rightarrow> Inr (\<lambda>t. [])
      | Some (JObject kvs) \<Rightarrow> decodeStringFields tags (\<lambda>t. []) kvs
      | Some _ \<Rightarrow> Inl UnmarshalTypeError)"

definition decodeSliceStruct :: "string list \<Rightarrow> json option \<Rightarrow> decode_error + (string \<Rightarrow> string list)" where
  "decodeSliceStruct tags b =
     (case b of
        None \<Rightarrow> Inl SyntaxError
      | Some JNull \<Rightarrow> Inr (\<lambda>t. [])
      | Some (JObject kvs) \<Rightarrow>
          (case decodeSliceFields tags (\<lambda>t. nilSlice) kvs of
             Inl e \<Rightarrow> Inl e
           | Inr f \<Rightarrow> Inr (\<lambda>t. sliceValue (f t)))
      | Some _ \<Rightarrow> Inl UnmarshalTypeError)"

subsection \<open>Package time\<close>

text \<open>
  A \<open>time.Time\<close> is kept as the two renderings the code takes of it: \<open>t.Unix()\<close> and
  \<open>t.Format(time.RFC3339)\<close>.
\<close>

record Time =
  Unix :: int
  Format_RFC3339 :: string

subsection \<open>Package net/http\<close>

text \<open>
  \<open>textproto.CanonicalMIMEHeaderKey\<close> for keys of letters, digits and hyphens: the
  first letter and each letter after a hyphen in upper case, the others in lower case.
\<close>

fun canonical :: "bool \<Rightarrow> string \<Rightarrow> string" where
  "canonical up [] = []"
| "canonical up (c # cs) =
     (if up then upperChar c else lowerChar c) # canonical (c = CHR ''-'') cs"

definition CanonicalMIMEHeaderKey :: "string \<Rightarrow> string" where
  "CanonicalMIMEHeaderKey k = canonical True k"

text \<open>
  A request as the handlers see it. \<open>Header\<close> is keyed by canonical names, as the
  server stores it; \<open>Body\<close> is the first JSON value of the body, if there is one.
\<close>

record Request =
  Method :: string
  Header :: "string \<rightharpoonup> string list"
  RemoteAddr :: string
  Body :: "json option"

text \<open>\<open>Header.Get\<close>: the first value stored under the key, or the empty string.\<close>

definition Header_Get :: "(string \<rightharpoonup> string list) \<Rightarrow> string \<Rightarrow> string" where
  "Header_Get h k =
     (case h (CanonicalMIMEHeaderKey k) of None \<Rightarrow> [] | Some [] \<Rightarrow> [] | Some (v # _) \<Rightarrow> v)"

text \<open>The answer to \<open>client.Get(url)\<close>, when the call returns no error.\<close>

record 'a HttpResponse =
  StatusCode :: nat
  RespBody :: 'a

section \<open>Data model\<close>

record BlockingRequest =
  Countries :: "string list"

record BlockingResponse =
  B_Message :: string
  B_BlockedCountries :: "string list"
  B_Success :: bool

record ValidationRequest =
  BlockedCountries :: "string list"
  TestCountries :: "string list"

record TestResult =
  T_Country :: string
  T_Blocked :: bool
  T_Status :: string
  T_ResponseTime :: int

record Summary =
  BlockedCount :: int
  AllowedCount :: int
  TotalTests :: int

record ValidationResponse =
  TestResults :: "TestResult list"
  Summary :: Summary

record PublicIPInfo =
  IP :: string
  City :: string
  Region :: string
  Country :: string
  Loc :: string
  Org :: string
  Timezone :: string

record VPNSimulationRequest =
  CountryCode :: string

record VPNSimulationResponse =
  V_Success :: bool
  V_Message :: string
  V_CountryCode :: string
  V_CountryName :: string
  V_SimulatedIP :: string
  V_IsBlocked :: bool
  V_Timestamp :: string
  V_Error :: string

text \<open>The zero value of \<open>VPNSimulationResponse\<close>.\<close>

definition emptyVPNSimulationResponse :: VPNSimulationResponse where
  "emptyVPNSimulationResponse =
     \<lparr>V_Success = False, V_Message = [], V_CountryCode = [], V_CountryName = [],
      V_SimulatedIP = [], V_IsBlocked = False, V_Timestamp = [], V_Error = []\<rparr>"

text \<open>Decoding the request and provider structs by their \<open>json\<close> tags.\<close>

definition DecodeBlockingRequest :: "json option \<Rightarrow> decode_error + BlockingRequest" where
  "DecodeBlockingRequest b =
     (case decodeSliceStruct [''countries''] b of
        Inl e \<Rightarrow> Inl e
      | Inr f \<Rightarrow> Inr \<lparr>Countries = f ''countries''\<rparr>)"

definition DecodeValidationRequest :: "json option \<Rightarrow> decode_error + ValidationRequest" where
  "DecodeValidationRequest b =
     (case decodeSliceStruct [''blocked_countries'', ''test_countries''] b of
        Inl e \<Rightarrow> Inl e
      | Inr f \<Rightarrow> Inr \<lparr>BlockedCountries = f ''blocked_countries'',
                      TestCountries = f ''test_countries''\<rparr>)"

definition DecodeVPNSimulationRequest :: "json option \<Rightarrow> decode_error + VPNSimulationRequest" where
  "DecodeVPNSimulationRequest b =
     (case decodeStringStruct [''country_code''] b of
        Inl e \<Rightarrow> Inl e
      | Inr f \<Rightarrow> Inr \<lparr>CountryCode = f ''country_code''\<rparr>)"

definition DecodePublicIPInfo :: "json option \<Rightarrow> decode_error + PublicIPInfo" where
  "DecodePublicIPInfo b =
     (case decodeStringStruct
             [''ip'', ''city'', ''region'', ''country'', ''loc'', ''org'', ''timezone''] b of
        Inl e \<Rightarrow> Inl e
      | Inr f \<Rightarrow> Inr \<lparr>IP = f ''ip'', City = f ''city'', Region = f ''region'',
                      Country = f ''country'', Loc = f ''loc'', Org = f ''org'',
                      Timezone = f ''timezone''\<rparr>)"

text \<open>The process-wide variable \<open>blockedCountriesList\<close>; it starts as nil.\<close>

record Globals =
  blockedCountriesList :: "string list"

definition initialGlobals :: Globals where
  "initialGlobals = \<lparr>blockedCountriesList = []\<rparr>"

text \<open>
  What lies outside the process while one request is served: the providers' answers
  to \<open>client.Get(url)\<close> (\<open>None\<close> when the call returns an error, a timeout
  included), read as JSON or, by \<open>io.ReadAll\<close>, as text (\<open>None\<close> when reading
  fails), and the readings of the clock, \<open>Now wd k\<close> being the \<open>k\<close>-th call of
  \<open>time.Now()\<close>. A provider gives the same answer each time it is asked during
  the request.
\<close>

record World =
  GetJSON :: "string \<Rightarrow> json option HttpResponse option"
  GetText :: "string \<Rightarrow> string option HttpResponse option"
  Now :: "nat \<Rightarrow> Time"

text \<open>
  What a handler hands to the response: the plain text of \<open>http.Error\<close>, or the Go
  value passed to \<open>json.NewEncoder(w).Encode\<close> (kept as the value, not rendered).
  A \<open>map[string]interface{}\<close> is the list of its entries.
\<close>

datatype field = VString string | VBool bool | VInt int

datatype payload =
    Plain string
  | MapBody "(string \<times> field) list"
  | BlockingBody BlockingResponse
  | ValidationBody ValidationResponse
  | VPNSimulationBody VPNSimulationResponse

text \<open>
  \<open>http.ResponseWriter\<close>: the header map, the status line once it is written, and
  what has been written to the body. The first write sends status 200 when no status
  was written before; a second \<open>WriteHeader\<close> is ignored.
\<close>

record ResponseWriter =
  header :: "string \<rightharpoonup> string"
  status :: "nat option"
  written :: "payload list"

definition newResponseWriter :: ResponseWriter where
  "newResponseWriter = \<lparr>header = Map.empty, status = None, written = []\<rparr>"

definition Header_Set :: "ResponseWriter \<Rightarrow> string \<Rightarrow> string \<Rightarrow> ResponseWriter" where
  "Header_Set w k v = w\<lparr>header := (header w)(CanonicalMIMEHeaderKey k \<mapsto> v)\<rparr>"

definition WriteHeader :: "ResponseWriter \<Rightarrow> nat \<Rightarrow> ResponseWriter" where
  "WriteHeader w code = (if status w = None then w\<lparr>status := Some code\<rparr> else w)"

definition Write :: "ResponseWriter \<Rightarrow> payload \<Rightarrow> ResponseWriter" where
  "Write w p = (WriteHeader w 200)\<lparr>written := written w @ [p]\<rparr>"

definition Encode :: "ResponseWriter \<Rightarrow> payload \<Rightarrow> ResponseWriter" where
  "Encode w p = Write w p"

text \<open>
  \<open>http.Error(w, msg, code)\<close>: it sets the headers of a plain-text reply, writes
  the status and then the message followed by a line feed (\<open>fmt.Fprintln\<close>).
\<close>

definition Header_Del :: "ResponseWriter \<Rightarrow> string \<Rightarrow> ResponseWriter" where
  "Header_Del w k = w\<lparr>header := (header w)(CanonicalMIMEHeaderKey k := None)\<rparr>"

definition Error :: "ResponseWriter \<Rightarrow> string \<Rightarrow> nat \<Rightarrow> ResponseWriter" where
  "Error w msg code =
     (let w1 = Header_Del w ''Content-Length'';
          w2 = Header_Set w1 ''Content-Type'' ''text/plain; charset=utf-8'';
          w3 = Header_Set w2 ''X-Content-Type-Options'' ''nosniff'';
          w4 = WriteHeader w3 code
      in Write w4 (Plain (msg @ [CHR 0x0A])))"

text \<open>The status the client receives: 200 when the handler never wrote one.\<close>

definition statusCode :: "ResponseWriter \<Rightarrow> nat" where
  "statusCode w = (case status w of None \<Rightarrow> 200 | Some c \<Rightarrow> c)"

abbreviation (input) StatusOK :: nat where "StatusOK \<equiv> 200"
abbreviation (input) StatusBadRequest :: nat where "StatusBadRequest \<equiv> 400"
abbreviation (input) StatusForbidden :: nat where "StatusForbidden \<equiv> 403"
abbreviation (input) StatusMethodNotAllowed :: nat where "StatusMethodNotAllowed \<equiv> 405"

type_synonym HandlerFunc = "World \<Rightarrow> Globals \<Rightarrow> ResponseWriter \<Rightarrow> Request \<Rightarrow> Globals \<times> ResponseWriter"

section \<open>IP extractor\<close>

text \<open>
  The handlers' console output (\<open>fmt.Printf\<close>) and \<open>time.Sleep\<close> have no effect on
  the responses or on the block list; the model leaves them out.
\<close>

definition isPrivateIP :: "string \<Rightarrow> bool" where
  "isPrivateIP ip \<longleftrightarrow>
     HasPrefix ip ''192.168.'' \<or>
     HasPrefix ip ''10.'' \<or>
     HasPrefix ip ''172.16.'' \<or>
     HasPrefix ip ''172.17.'' \<or>
     HasPrefix ip ''172.18.'' \<or>
     HasPrefix ip ''172.19.'' \<or>
     HasPrefix ip ''172.2'' \<or>
     HasPrefix ip ''172.30.'' \<or>
     HasPrefix ip ''172.31.'' \<or>
     HasPrefix ip ''127.'' \<or>
     ip = ''::1''"

text \<open>
  \<open>getRealIP\<close>. \<open>ips[0]\<close> is in range: \<open>Split\<close> never returns an empty slice
  (lemma \<open>Split_not_Nil\<close>).
\<close>

definition getRealIP :: "Request \<Rightarrow> string" where
  "getRealIP r =
     (let xff = Header_Get (Header r) ''X-Forwarded-For'';
          ips = Split xff (CHR '','');
          ip = TrimSpace (ips ! 0);
          xri = Header_Get (Header r) ''X-Real-IP'';
          cfip = Header_Get (Header r) ''CF-Connecting-IP'';
          remoteAddr = RemoteAddr r;
          endBracket = Index remoteAddr '']'';
          colonIndex = LastIndex remoteAddr '':''
      in if xff \<noteq> [] \<and> ip \<noteq> [] then ip
         else if xri \<noteq> [] then xri
         else if cfip \<noteq> [] then cfip
         else if HasPrefix remoteAddr ''['' \<and> endBracket > 0
           then substring remoteAddr 1 (nat endBracket)
         else if colonIndex > 0 then substring remoteAddr 0 (nat colonIndex)
         else remoteAddr)"

section \<open>Geo resolver\<close>

text \<open>The errors the resolver returns, one constructor for each \<open>fmt.Errorf\<close>.\<close>

datatype geo_error =
    CannotDeterminePrivate string
  | FailedToGetCountry string
  | CouldNotDetermine string
  | NoPublicIP

definition services :: "string list" where
  "services =
     [''https://api.ipify.org?format=text'',
      ''https://checkip.amazonaws.com'',
      ''https://icanhazip.com'']"

text \<open>
  \<open>getCountryFromIPAddress\<close>, \<open>getRealPublicIPAndCountry\<close> and \<open>getRealPublicIP\<close>
  call each other; \<open>getRealPublicIP_loop\<close> is the \<open>for\<close> loop over the services.
  Go's result tuples are kept as tuples, the error last (\<open>None\<close> is \<open>nil\<close>).
\<close>

function getCountryFromIPAddress :: "World \<Rightarrow> string \<Rightarrow> string \<times> geo_error option"
  and getRealPublicIPAndCountry :: "World \<Rightarrow> string \<times> string \<times> geo_error option"
  and getRealPublicIP :: "World \<Rightarrow> string \<times> string \<times> geo_error option"
  and getRealPublicIP_loop :: "World \<Rightarrow> string list \<Rightarrow> string \<times> string \<times> geo_error option"
where
  "getCountryFromIPAddress wd ip =
     (if isPrivateIP ip then
        (case getRealPublicIPAndCountry wd of
           (realIP, realCountry, err) \<Rightarrow>
             if err = None \<and> realIP \<noteq> [] \<and> realCountry \<noteq> [] then (realCountry, None)
             else ([], Some (CannotDeterminePrivate ip)))
      else
        (case GetJSON wd (''https://ipinfo.io/'' @ ip @ ''/json'') of
           None \<Rightarrow> ([], Some (FailedToGetCountry ip))
         | Some resp \<Rightarrow>
             if StatusCode resp = 200 then
               (case DecodePublicIPInfo (RespBody resp) of
                  Inl e \<Rightarrow> ([], Some (CouldNotDetermine ip))
                | Inr info \<Rightarrow>
                    if Country info \<noteq> [] then (Country info, None)
                    else ([], Some (CouldNotDetermine ip)))
             else ([], Some (CouldNotDetermine ip))))"
| "getRealPublicIPAndCountry wd =
     (case GetJSON wd ''https://ipinfo.io/json'' of
        None \<Rightarrow> getRealPublicIP wd
      | Some resp \<Rightarrow>
          if StatusCode resp = 200 then
            (case DecodePublicIPInfo (RespBody resp) of
               Inl e \<Rightarrow> getRealPublicIP wd
             | Inr info \<Rightarrow>
                 if IP info \<noteq> [] \<and> Country info \<noteq> [] \<and> \<not> isPrivateIP (IP info)
                 then (IP info, Country info, None)
                 else getRealPublicIP wd)
          else getRealPublicIP wd)"
| "getRealPublicIP wd = getRealPublicIP_loop wd services"
| "getRealPublicIP_loop wd [] = ([], [], Some NoPublicIP)"
| "getRealPublicIP_loop wd (service # rest) =
     (case GetText wd service of
        None \<Rightarrow> getRealPublicIP_loop wd rest
      | Some resp \<Rightarrow>
          if StatusCode resp = 200 then
            (case RespBody resp of
               None \<Rightarrow> getRealPublicIP_loop wd rest
             | Some body \<Rightarrow>
                 if TrimSpace body \<noteq> [] \<and> \<not> isPrivateIP (TrimSpace body) then
                   (case getCountryFromIPAddress wd (TrimSpace body) of
                      (country, err) \<Rightarrow>
                        if err = None \<and> country \<noteq> [] then (TrimSpace body, country, None)
                        else (TrimSpace body, [], None))
                 else getRealPublicIP_loop wd rest)
          else getRealPublicIP_loop wd rest)"
  by pat_completeness auto

text \<open>
  The calls end: a private address asks for the public one, the loop asks for the
  country of an address only when that address is not private, and a public address
  makes no further call.
\<close>

termination
  by (relation "measure (\<lambda>x. case x of
        Inl (Inl (wd, ip)) \<Rightarrow> (if isPrivateIP ip then 7 else 0)
      | Inl (Inr wd) \<Rightarrow> 6
      | Inr (Inl wd) \<Rightarrow> 5
      | Inr (Inr (wd, ss)) \<Rightarrow> 1 + length ss)")
     (simp_all add: services_def)

declare getCountryFromIPAddress.simps [simp del]
  getRealPublicIPAndCountry.simps [simp del]
  getRealPublicIP.simps [simp del]
  getRealPublicIP_loop.simps [simp del]

section \<open>The block list\<close>

fun contains :: "string list \<Rightarrow> string \<Rightarrow> bool" where
  "contains [] item = False"
| "contains (s # slice) item = (if s = item then True else contains slice item)"

definition handleBlockCountries :: HandlerFunc where
  "handleBlockCountries wd g w r =
     (if Method r \<noteq> ''POST'' then (g, Error w ''Method not allowed'' StatusMethodNotAllowed)
      else
        (case DecodeBlockingRequest (Body r) of
           Inl err \<Rightarrow> (g, Error w ''Invalid JSON'' StatusBadRequest)
         | Inr req \<Rightarrow>
             (let g' = g\<lparr>blockedCountriesList := Countries req\<rparr>;
                  response =
                    \<lparr>B_Message = ''Successfully blocked '' @ digits (length (Countries req))
                                    @ '' countries'',
                     B_BlockedCountries = Countries req,
                     B_Success = True\<rparr>;
                  w' = Header_Set w ''Content-Type'' ''application/json''
              in (g', Encode w' (BlockingBody response)))))"

definition getStatusMessage :: "bool \<Rightarrow> string" where
  "getStatusMessage isBlocked =
     (if isBlocked then ''Access denied (geo-blocked)'' else ''Access granted'')"

text \<open>
  The loop of \<open>handleValidateBlocking\<close> over \<open>req.TestCountries\<close>, with its three
  variables \<open>testResults\<close>, \<open>blockedCount\<close> and \<open>allowedCount\<close>.
\<close>

fun validateLoop ::
  "string list \<Rightarrow> string list \<Rightarrow> TestResult list \<times> int \<times> int \<Rightarrow> TestResult list \<times> int \<times> int" where
  "validateLoop blocked [] acc = acc"
| "validateLoop blocked (country # rest) (testResults, blockedCount, allowedCount) =
     (let isBlocked = contains blocked country;
          result = \<lparr>T_Country = country,
                    T_Blocked = isBlocked,
                    T_Status = getStatusMessage isBlocked,
                    T_ResponseTime = 50 + int (length country) * 10\<rparr>
      in validateLoop blocked rest
           (testResults @ [result],
            if isBlocked then blockedCount + 1 else blockedCount,
            if isBlocked then allowedCount else allowedCount + 1))"

definition handleValidateBlocking :: HandlerFunc where
  "handleValidateBlocking wd g w r =
     (if Method r \<noteq> ''POST'' then (g, Error w ''Method not allowed'' StatusMethodNotAllowed)
      else
        (case DecodeValidationRequest (Body r) of
           Inl err \<Rightarrow> (g, Error w ''Invalid JSON'' StatusBadRequest)
         | Inr req \<Rightarrow>
             (case validateLoop (BlockedCountries req) (TestCountries req) ([], 0, 0) of
                (testResults, blockedCount, allowedCount) \<Rightarrow>
                  (let response =
                         \<lparr>TestResults = testResults,
                          Summary = \<lparr>BlockedCount = blockedCount,
                                     AllowedCount = allowedCount,
                                     TotalTests = int (length (TestCountries req))\<rparr>\<rparr>;
                       w' = Header_Set w ''Content-Type'' ''application/json''
                   in (g, Encode w' (ValidationBody response))))))"

section \<open>Access decision gate\<close>

text \<open>
  The first part of \<open>countryBlockingMiddleware\<close>: the client address, the address
  reported as the actual one, and the country code the decision is taken on.
\<close>

definition gateCountry :: "World \<Rightarrow> Request \<Rightarrow> string \<times> string \<times> string" where
  "gateCountry wd r =
     (let clientIP = getRealIP r;
          (actualIP, countryCode) =
            (if isPrivateIP clientIP then
               (case getRealPublicIPAndCountry wd of
                  (realIP, realCountry, err) \<Rightarrow>
                    if err = None \<and> realIP \<noteq> [] then (realIP, realCountry)
                    else (clientIP, fst (getCountryFromIPAddress wd clientIP)))
             else (clientIP, fst (getCountryFromIPAddress wd clientIP)))
      in (clientIP, actualIP, if countryCode = [] then ''UNKNOWN'' else countryCode))"

definition countryBlockingMiddleware :: "HandlerFunc \<Rightarrow> HandlerFunc" where
  "countryBlockingMiddleware next wd g w r =
     (case gateCountry wd r of
        (clientIP, actualIP, countryCode) \<Rightarrow>
          (let isBlocked = contains (blockedCountriesList g) countryCode in
           if isBlocked then
             (let w1 = Header_Set w ''Content-Type'' ''application/json'';
                  w2 = WriteHeader w1 StatusForbidden;
                  blockResponse =
                    [(''error'', VString ''Country Blocked''),
                     (''message'', VString (''Access denied: Your country ('' @ countryCode
                                            @ '') has been blocked'')),
                     (''country_code'', VString countryCode),
                     (''client_ip'', VString actualIP),
                     (''detected_via'', VString clientIP),
                     (''blocked_at'', VString (Format_RFC3339 (Now wd 0))),
                     (''reason'', VString ''Geo-blocking policy in effect'')]
              in (g, Encode w2 (MapBody blockResponse)))
           else
             (let w1 = Header_Set w ''X-Client-Country'' countryCode;
                  w2 = Header_Set w1 ''X-Client-IP'' clientIP
              in next wd g w2 r)))"

definition handleTestAccess :: HandlerFunc where
  "handleTestAccess wd g w r =
     (let clientIP = getRealIP r;
          countryCode = fst (getCountryFromIPAddress wd clientIP);
          response =
            [(''success'', VBool True),
             (''message'', VString ''Access granted! You can access this API.''),
             (''client_ip'', VString clientIP),
             (''country_code'', VString countryCode),
             (''timestamp'', VString (Format_RFC3339 (Now wd 0))),
             (''server_time'', VInt (Unix (Now wd 1)))];
          w' = Header_Set w ''Content-Type'' ''application/json''
      in (g, Encode w' (MapBody response)))"

section \<open>VPN simulation\<close>

definition generateSimulatedIP :: "string \<Rightarrow> string" where
  "generateSimulatedIP countryCode =
     (let ipRanges =
            [(''US'', ''192.168.1.100''),
             (''DE'', ''185.199.108.153''),
             (''RU'', ''46.4.96.137''),
             (''CN'', ''103.21.244.8''),
             (''FR'', ''46.19.37.108''),
             (''GB'', ''151.101.193.140''),
             (''AU'', ''203.0.113.195''),
             (''CA'', ''198.51.100.42''),
             (''JP'', ''210.251.121.3''),
             (''BR'', ''191.232.38.25''),
             (''IN'', ''103.21.244.15''),
             (''NL'', ''185.40.4.193''),
             (''IT'', ''151.101.1.140''),
             (''ES'', ''185.199.110.153''),
             (''SE'', ''185.40.4.194'')]
      in case map_of ipRanges countryCode of
           Some ip \<Rightarrow> ip
         | None \<Rightarrow> ''198.51.100.1'')"

definition getCountryName :: "string \<Rightarrow> string \<times> bool" where
  "getCountryName countryCode =
     (let countryNames =
            [(''US'', ''United States''), (''CA'', ''Canada''), (''GB'', ''United Kingdom''),
             (''DE'', ''Germany''), (''FR'', ''France''), (''AU'', ''Australia''),
             (''JP'', ''Japan''), (''RU'', ''Russia''), (''CN'', ''China''),
             (''NL'', ''Netherlands''), (''BR'', ''Brazil''), (''IN'', ''India''),
             (''ES'', ''Spain''), (''IT'', ''Italy''), (''SE'', ''Sweden'')]
      in case map_of countryNames countryCode of
           Some name \<Rightarrow> (name, True)
         | None \<Rightarrow> ([], False))"

definition handleSimulateVPN :: HandlerFunc where
  "handleSimulateVPN wd g w r =
     (if Method r \<noteq> ''POST'' then (g, Error w ''Method not allowed'' StatusMethodNotAllowed)
      else
        (case DecodeVPNSimulationRequest (Body r) of
           Inl err \<Rightarrow>
             (let response = emptyVPNSimulationResponse
                    \<lparr>V_Success := False, V_Error := ''Invalid JSON request''\<rparr>;
                  w1 = Header_Set w ''Content-Type'' ''application/json'';
                  w2 = WriteHeader w1 StatusBadRequest
              in (g, Encode w2 (VPNSimulationBody response)))
         | Inr req \<Rightarrow>
             if CountryCode req = [] then
               (let response = emptyVPNSimulationResponse
                      \<lparr>V_Success := False, V_Error := ''Country code is required''\<rparr>;
                    w1 = Header_Set w ''Content-Type'' ''application/json'';
                    w2 = WriteHeader w1 StatusBadRequest
                in (g, Encode w2 (VPNSimulationBody response)))
             else
               (let countryName =
                      (case getCountryName (CountryCode req) of
                         (name, exists) \<Rightarrow> if exists then name else ''Unknown Country'');
                    simulatedIP = generateSimulatedIP (CountryCode req);
                    isBlocked = contains (blockedCountriesList g) (CountryCode req)
                in if isBlocked then
                     (let response =
                            \<lparr>V_Success = False,
                             V_Message = ''Access denied: '' @ countryName @ '' (''
                                           @ CountryCode req @ '') is blocked'',
                             V_CountryCode = CountryCode req,
                             V_CountryName = countryName,
                             V_SimulatedIP = simulatedIP,
                             V_IsBlocked = True,
                             V_Timestamp = Format_RFC3339 (Now wd 0),
                             V_Error = ''Country is geo-blocked''\<rparr>;
                          w1 = Header_Set w ''Content-Type'' ''application/json'';
                          w2 = WriteHeader w1 StatusForbidden
                      in (g, Encode w2 (VPNSimulationBody response)))
                   else
                     (let response =
                            \<lparr>V_Success = True,
                             V_Message = ''Access granted from '' @ countryName @ '' (''
                                           @ CountryCode req @ '')'',
                             V_CountryCode = CountryCode req,
                             V_CountryName = countryName,
                             V_SimulatedIP = simulatedIP,
                             V_IsBlocked = False,
                             V_Timestamp = Format_RFC3339 (Now wd 0),
                             V_Error = []\<rparr>;
                          w1 = Header_Set w ''Content-Type'' ''application/json''
                      in (g, Encode w1 (VPNSimulationBody response))))))"

section \<open>Routing\<close>

definition enableCORS :: "HandlerFunc \<Rightarrow> HandlerFunc" where
  "enableCORS next wd g w r =
     (let w1 = Header_Set w ''Access-Control-Allow-Origin'' ''*'';
          w2 = Header_Set w1 ''Access-Control-Allow-Methods'' ''GET, POST, PUT, DELETE, OPTIONS'';
          w3 = Header_Set w2 ''Access-Control-Allow-Headers'' ''Content-Type, Authorization''
      in if Method r = ''OPTIONS'' then (g, WriteHeader w3 StatusOK)
         else next wd g w3 r)"

text \<open>The routes \<open>main\<close> registers for the endpoints modelled here.\<close>

definition api_block_countries :: HandlerFunc where
  "api_block_countries = enableCORS handleBlockCountries"

definition api_validate_blocking :: HandlerFunc where
  "api_validate_blocking = enableCORS handleValidateBlocking"

definition api_test_access :: HandlerFunc where
  "api_test_access = enableCORS (countryBlockingMiddleware handleTestAccess)"

definition api_simulate_vpn :: HandlerFunc where
  "api_simulate_vpn = enableCORS handleSimulateVPN"

section \<open>The reserved ranges of the specification\<close>

text \<open>
  The ranges the specification names for a private IPv4 address, stated on the four
  octets: 10.x, 172.16 to 172.31, 192.168.x and 127.x. This definition follows the
  specification's words, not the code; \<open>isPrivateIP\<close> is compared with it below.
  \<open>dotted\<close> writes an address in dotted decimal notation.
\<close>

definition reservedRange :: "nat \<times> nat \<times> nat \<times> nat \<Rightarrow> bool" where
  "reservedRange q =
     (case q of (a, b, c, d) \<Rightarrow>
        a = 10 \<or> (a = 172 \<and> 16 \<le> b \<and> b \<le> 31) \<or> (a = 192 \<and> b = 168) \<or> a = 127)"

definition dotted :: "nat \<times> nat \<times> nat \<times> nat \<Rightarrow> string" where
  "dotted q =
     (case q of (a, b, c, d) \<Rightarrow>
        digits a @ ''.'' @ digits b @ ''.'' @ digits c @ ''.'' @ digits d)"

section \<open>Example inputs\<close>

text \<open>
  Concrete requests and worlds at which the theorems below are instantiated: a POST
  with a given body, a GET with given headers and peer address, a world in which
  every provider call fails, and one in which \<open>ipinfo.io\<close> answers.
\<close>

definition postRequest :: "json option \<Rightarrow> Request" where
  "postRequest b =
     \<lparr>Method = ''POST'', Header = Map.empty, RemoteAddr = ''127.0.0.1:50000'', Body = b\<rparr>"

definition getRequest :: "(string \<rightharpoonup> string list) \<Rightarrow> string \<Rightarrow> Request" where
  "getRequest h addr = \<lparr>Method = ''GET'', Header = h, RemoteAddr = addr, Body = None\<rparr>"

definition epoch :: Time where
  "epoch = \<lparr>Unix = 0, Format_RFC3339 = ''1970-01-01T00:00:00Z''\<rparr>"

definition offline :: World where
  "offline = \<lparr>GetJSON = (\<lambda>url. None), GetText = (\<lambda>url. None), Now = (\<lambda>k. epoch)\<rparr>"

text \<open>
  \<open>ipinfoWorld ip country\<close>: \<open>ipinfo.io\<close> knows the address \<open>ip\<close>, which is also
  the host's own public address, and reports \<open>country\<close> for it.
\<close>

definition ipinfoWorld :: "string \<Rightarrow> string \<Rightarrow> World" where
  "ipinfoWorld ip country =
     \<lparr>GetJSON = (\<lambda>url.
        if url = ''https://ipinfo.io/'' @ ip @ ''/json'' \<or> url = ''https://ipinfo.io/json''
        then Some \<lparr>StatusCode = 200,
                   RespBody = Some (JObject [(''ip'', JString ip), (''country'', JString country)])\<rparr>
        else None),
      GetText = (\<lambda>url. None),
      Now = (\<lambda>k. epoch)\<rparr>"

text \<open>
  \<open>fallbackWorld ip country\<close>: the host's own lookup at \<open>ipinfo.io\<close> and the first
  plain service fail, the second plain service answers \<open>ip\<close> followed by a line
  feed, and \<open>ipinfo.io\<close> reports \<open>country\<close> for \<open>ip\<close>.
\<close>

definition fallbackWorld :: "string \<Rightarrow> string \<Rightarrow> World" where
  "fallbackWorld ip country =
     \<lparr>GetJSON = (\<lambda>url.
        if url = ''https://ipinfo.io/'' @ ip @ ''/json''
        then Some \<lparr>StatusCode = 200,
                   RespBody = Some (JObject [(''ip'', JString ip), (''country'', JString country)])\<rparr>
        else None),
      GetText = (\<lambda>url.
        if url = ''https://checkip.amazonaws.com''
        then Some \<lparr>StatusCode = 200, RespBody = Some (ip @ [CHR 0x0A])\<rparr>
        else None),
      Now = (\<lambda>k. epoch)\<rparr>"

section \<open>Facts about the library functions\<close>

lemma Split_not_Nil: "Split s sep \<noteq> []"
  by (induction s) (auto split: list.splits)

lemma Split_first: "Split s sep ! 0 = takeWhile (\<lambda>c. c \<noteq> sep) s"
  by (induction s) (auto split: list.splits simp: Split_not_Nil)

lemma Index_absent: "c \<notin> set xs \<Longrightarrow> Index xs [c] = -1"
  by (induction xs) (auto simp: Let_def)

lemma Index_first: "c \<notin> set xs \<Longrightarrow> Index (xs @ c # rest) [c] = int (length xs)"
  by (induction xs) (auto simp: Let_def)

lemma LastIndex_absent: "c \<notin> set xs \<Longrightarrow> LastIndex xs [c] = -1"
  by (induction xs) (auto simp: Let_def)

lemma LastIndex_last: "c \<notin> set ys \<Longrightarrow> LastIndex (xs @ c # ys) [c] = int (length xs)"
  by (induction xs) (auto simp: Let_def LastIndex_absent)

lemma TrimSpace_empty: "TrimSpace [] = []"
  by code_simp

lemma TrimSpace_example: "TrimSpace ''1.2.3.4'' = ''1.2.3.4''"
  by code_simp

lemma TrimSpace_line: "TrimSpace (''203.0.113.7'' @ [CHR 0x0A]) = ''203.0.113.7''"
  by code_simp

lemma leadingSpace_blank:
  "c = CHR '' '' \<or> c = CHR 0x09 \<Longrightarrow> leadingSpace (c # cs) = 1"
  by (erule disjE) (simp_all add: leadingSpace_def spaceRunes_def)

lemma leadingSpace_other:
  "c \<notin> set [CHR 0x09, CHR 0x0A, CHR 0x0B, CHR 0x0C, CHR 0x0D, CHR 0x20,
              CHR 0xC2, CHR 0xE1, CHR 0xE2, CHR 0xE3] \<Longrightarrow> leadingSpace (c # cs) = 0"
  by (simp add: leadingSpace_def spaceRunes_def)

lemma trailingSpace_blank:
  "c = CHR '' '' \<or> c = CHR 0x09 \<Longrightarrow> trailingSpace (cs @ [c]) = 1"
  by (erule disjE) (simp_all add: trailingSpace_def HasSuffix_def spaceRunes_def)

lemma trailingSpace_other:
  "c \<notin> set [CHR 0x09, CHR 0x0A, CHR 0x0B, CHR 0x0C, CHR 0x0D, CHR 0x20, CHR 0x85, CHR 0xA0,
              CHR 0x80, CHR 0x81, CHR 0x82, CHR 0x83, CHR 0x84, CHR 0x86, CHR 0x87,
              CHR 0x88, CHR 0x89, CHR 0x8A, CHR 0xA8, CHR 0xA9, CHR 0xAF, CHR 0x9F]
   \<Longrightarrow> trailingSpace (cs @ [c]) = 0"
  by (simp add: trailingSpace_def HasSuffix_def spaceRunes_def)

lemma TrimLeft_blanks:
  "set ws \<subseteq> {CHR '' '', CHR 0x09} \<Longrightarrow> TrimLeft (ws @ s) = TrimLeft s"
proof (induction ws)
  case Nil
  then show ?case by simp
next
  case (Cons c ws)
  then have "leadingSpace ((c # ws) @ s) = 1" by (simp add: leadingSpace_blank)
  then have "TrimLeft ((c # ws) @ s) = TrimLeft (ws @ s)"
    by (subst TrimLeft.simps) simp
  with Cons show ?case by simp
qed

lemma TrimRight_blanks:
  "set ws \<subseteq> {CHR '' '', CHR 0x09} \<Longrightarrow> TrimRight (s @ ws) = TrimRight s"
proof (induction ws rule: rev_induct)
  case Nil
  then show ?case by simp
next
  case (snoc c ws)
  then have "trailingSpace ((s @ ws) @ [c]) = 1" by (intro trailingSpace_blank) simp
  then have "TrimRight ((s @ ws) @ [c]) = TrimRight (s @ ws)"
    by (subst TrimRight.simps) simp
  with snoc show ?case by simp
qed

text \<open>
  An address written with digits, hexadecimal letters, dots and colons, with blanks
  and tabs around it, is trimmed to the address.
\<close>

lemma TrimSpace_address:
  assumes "set ws1 \<subseteq> {CHR '' '', CHR 0x09}" and "set ws2 \<subseteq> {CHR '' '', CHR 0x09}"
    and "core \<noteq> []" and "set core \<subseteq> set ''0123456789abcdefABCDEF.:''"
  shows "TrimSpace (ws1 @ core @ ws2) = core"
proof -
  obtain c cs where c: "core = c # cs" using assms(3) by (cases core) auto
  obtain ds d where d: "core = ds @ [d]" using assms(3) by (cases core rule: rev_cases) auto
  have "c \<in> set ''0123456789abcdefABCDEF.:''" using assms(4) c by simp
  then have "leadingSpace (c # cs @ ws2) = 0"
    by (intro leadingSpace_other) auto
  then have l: "TrimLeft (core @ ws2) = core @ ws2"
    using c by (subst TrimLeft.simps) simp
  have "d \<in> set ''0123456789abcdefABCDEF.:''" using assms(4) d by simp
  then have "trailingSpace (ds @ [d]) = 0"
    by (intro trailingSpace_other) auto
  then have r: "TrimRight core = core"
    using d by (subst TrimRight.simps) simp
  show ?thesis
    unfolding TrimSpace_def
    using TrimLeft_blanks[OF assms(1), of "core @ ws2"] TrimRight_blanks[OF assms(2), of core] l r
    by simp
qed

lemma TrimSpace_blanks_example: "TrimSpace '' 1.2.3.4 '' = ''1.2.3.4''"
  using TrimSpace_address[of "'' ''" "'' ''" "''1.2.3.4''"] by simp

lemma ToUpper_de: "ToUpper ''de'' = ''DE''"
  by (simp add: ToUpper_def upperChar_def)

lemma digit_nth_eq:
  "i < 10 \<Longrightarrow> j < 10 \<Longrightarrow> (''0123456789'' ! i = ''0123456789'' ! j) \<longleftrightarrow> i = j"
  by (rule nth_eq_iff_index_eq) simp_all

lemma digit_nth_mem: "i < 10 \<Longrightarrow> ''0123456789'' ! i \<in> set ''0123456789''"
  by (rule nth_mem) simp

lemma digits_not_Nil: "digits n \<noteq> []"
  by (subst digits.simps) simp

lemma digits_set: "set (digits n) \<subseteq> set ''0123456789''"
proof (induction n rule: digits.induct)
  case (1 n)
  show ?case
  proof (cases "n < 10")
    case True
    then show ?thesis using digit_nth_mem[of n] by (subst digits.simps) simp
  next
    case False
    then show ?thesis
      using 1 digit_nth_mem[of "n mod 10"] by (subst digits.simps) simp
  qed
qed

lemma digits_no_dot: "CHR ''.'' \<notin> set (digits n)"
  using digits_set[of n] by auto

lemma digits_inj: "digits m = digits n \<Longrightarrow> m = n"
proof (induction m arbitrary: n rule: digits.induct)
  case (1 m)
  show ?case
  proof (cases "m < 10")
    case m: True
    show ?thesis
    proof (cases "n < 10")
      case True
      with m "1.prems" show ?thesis
        by (simp add: digits.simps[of m] digits.simps[of n] digit_nth_eq)
    next
      case False
      with m "1.prems" digits_not_Nil[of "n div 10"] show ?thesis
        by (simp add: digits.simps[of m] digits.simps[of n])
    qed
  next
    case m: False
    show ?thesis
    proof (cases "n < 10")
      case True
      with m "1.prems" digits_not_Nil[of "m div 10"] show ?thesis
        by (simp add: digits.simps[of m] digits.simps[of n])
    next
      case False
      with m "1.prems" have "digits (m div 10) = digits (n div 10)"
        and "''0123456789'' ! (m mod 10) = ''0123456789'' ! (n mod 10)"
        by (simp_all add: digits.simps[of m] digits.simps[of n])
      then have "m div 10 = n div 10" and "m mod 10 = n mod 10"
        using "1.IH"[OF m] by (simp_all add: digit_nth_eq)
      then show ?thesis by (metis div_mult_mod_eq)
    qed
  qed
qed

lemma digits_eq_iff: "digits n = digits k \<longleftrightarrow> n = k"
  using digits_inj by auto

lemma digits_values:
  "digits 10 = ''10''" "digits 127 = ''127''" "digits 172 = ''172''" "digits 192 = ''192''"
  "digits 168 = ''168''" "digits 16 = ''16''" "digits 17 = ''17''" "digits 18 = ''18''"
  "digits 19 = ''19''" "digits 30 = ''30''" "digits 31 = ''31''"
  by (simp_all add: digits.simps)

lemma HasPrefix_separator:
  "c \<notin> set x \<Longrightarrow> c \<notin> set p \<Longrightarrow>
   HasPrefix (x @ c # r) (p @ c # q) \<longleftrightarrow> x = p \<and> HasPrefix r q"
proof (induction x arbitrary: p)
  case Nil
  then show ?case by (cases p) auto
next
  case (Cons a x)
  then show ?case by (cases p) auto
qed

lemma leading_two:
  assumes "b < 256"
  shows "HasPrefix (digits b @ rest) ''2'' \<longleftrightarrow> b = 2 \<or> (20 \<le> b \<and> b \<le> 29) \<or> 200 \<le> b"
proof -
  consider "b < 10" | "10 \<le> b" "b < 100" | "100 \<le> b" using assms by linarith
  then show ?thesis
  proof cases
    case 1
    then have "digits b = [''0123456789'' ! b]" by (simp add: digits.simps[of b])
    with 1 digit_nth_eq[of b 2] show ?thesis by auto
  next
    case 2
    then have "digits b = [''0123456789'' ! (b div 10), ''0123456789'' ! (b mod 10)]"
      by (simp add: digits.simps[of b] digits.simps[of "b div 10"])
    moreover have "b div 10 < 10" using 2 by arith
    moreover have "b div 10 = 2 \<longleftrightarrow> 20 \<le> b \<and> b \<le> 29" by arith
    ultimately show ?thesis using 2 digit_nth_eq[of "b div 10" 2] by auto
  next
    case 3
    have f1: "\<not> b div 10 < 10" using 3 by arith
    have f2: "b div 10 div 10 < 10" using assms by arith
    have f3: "b div 10 div 10 = 2 \<longleftrightarrow> 200 \<le> b" using assms by arith
    have "digits b = [''0123456789'' ! (b div 10 div 10), ''0123456789'' ! (b div 10 mod 10),
        ''0123456789'' ! (b mod 10)]"
      using 3 f1 f2
      by (simp add: digits.simps[of b] digits.simps[of "b div 10"] digits.simps[of "b div 10 div 10"])
    with f2 f3 3 show ?thesis using digit_nth_eq[of "b div 10 div 10" 2] by auto
  qed
qed

lemma decodeStringFields_no_key:
  "\<forall>(k, v) \<in> set kvs. foldName k \<notin> set tags \<Longrightarrow> decodeStringFields tags cur kvs = Inr cur"
  by (induction kvs arbitrary: cur) auto

lemma decode_countries_RU_CN:
  "DecodeBlockingRequest (Some (JObject [(''countries'', JArray [JString ''RU'', JString ''CN''])]))
     = Inr \<lparr>Countries = [''RU'', ''CN'']\<rparr>"
  by (simp add: DecodeBlockingRequest_def decodeSliceStruct_def sliceValue_def nilSlice_def lowerChar_def)

lemma decode_countries_single:
  "DecodeBlockingRequest (Some (JObject [(''countries'', JArray [JString c])]))
     = Inr \<lparr>Countries = [c]\<rparr>"
  by (simp add: DecodeBlockingRequest_def decodeSliceStruct_def sliceValue_def nilSlice_def lowerChar_def)

lemma decode_validation_example:
  "DecodeValidationRequest (Some (JObject
      [(''blocked_countries'', JArray [JString ''RU'', JString ''CN'']),
       (''test_countries'', JArray [JString ''RU'', JString ''US''])]))
   = Inr \<lparr>BlockedCountries = [''RU'', ''CN''], TestCountries = [''RU'', ''US'']\<rparr>"
  by (simp add: DecodeValidationRequest_def decodeSliceStruct_def sliceValue_def nilSlice_def lowerChar_def)

lemma decode_country_code:
  "DecodeVPNSimulationRequest (Some (JObject [(''country_code'', JString c)])) = Inr \<lparr>CountryCode = c\<rparr>"
  by (simp add: DecodeVPNSimulationRequest_def decodeStringStruct_def lowerChar_def)

lemma decode_ipinfo_answer:
  "DecodePublicIPInfo (Some (JObject [(''ip'', JString ip), (''country'', JString country)]))
     = Inr \<lparr>IP = ip, City = [], Region = [], Country = country, Loc = [], Org = [],
            Timezone = []\<rparr>"
  by (simp add: DecodePublicIPInfo_def decodeStringStruct_def lowerChar_def)

text \<open>
  The slice decoder at bodies with a key written with U+017F or U+212A, a repeated
  key, a \<open>null\<close> after an array, and \<open>null\<close> elements.
\<close>

lemma decode_countries_folded_key:
  "DecodeBlockingRequest
     (Some (JObject [(''countrie'' @ [CHR 0xC5, CHR 0xBF], JArray [JString ''RU''])]))
     = Inr \<lparr>Countries = [''RU'']\<rparr>"
  "DecodeBlockingRequest (Some (JObject [(''Countries'', JArray [JString ''RU''])]))
     = Inr \<lparr>Countries = [''RU'']\<rparr>"
  by (simp_all add: DecodeBlockingRequest_def decodeSliceStruct_def sliceValue_def nilSlice_def
        lowerChar_def)

lemma decode_validation_folded_key:
  "DecodeValidationRequest
     (Some (JObject [(''bloc'' @ [CHR 0xE2, CHR 0x84, CHR 0xAA] @ ''ed_countries'',
                      JArray [JString ''RU'']),
                     (''test_countries'', JArray [JString ''RU''])]))
     = Inr \<lparr>BlockedCountries = [''RU''], TestCountries = [''RU'']\<rparr>"
  by (simp add: DecodeValidationRequest_def decodeSliceStruct_def sliceValue_def nilSlice_def
        lowerChar_def)

lemma decode_countries_repeated_key:
  "DecodeBlockingRequest
     (Some (JObject [(''countries'', JArray [JString ''RU'', JString ''CN'']),
                     (''countries'', JNull)]))
     = Inr \<lparr>Countries = []\<rparr>"
  "DecodeBlockingRequest
     (Some (JObject [(''countries'', JArray [JString ''RU'']),
                     (''countries'', JArray [JNull])]))
     = Inr \<lparr>Countries = [''RU'']\<rparr>"
  "DecodeBlockingRequest
     (Some (JObject [(''countries'', JArray [JString ''RU'', JString ''CN'']),
                     (''countries'', JArray [JString ''DE''])]))
     = Inr \<lparr>Countries = [''DE'']\<rparr>"
  "DecodeBlockingRequest
     (Some (JObject [(''countries'', JArray [JString ''RU'', JString ''CN'']),
                     (''countries'', JArray [JString ''DE'']),
                     (''countries'', JArray [JNull, JNull])]))
     = Inr \<lparr>Countries = [''DE'', ''CN'']\<rparr>"
  "DecodeBlockingRequest
     (Some (JObject [(''countries'', JArray [JString ''RU'']), (''countries'', JArray [])]))
     = Inr \<lparr>Countries = []\<rparr>"
  by (simp_all add: DecodeBlockingRequest_def decodeSliceStruct_def sliceValue_def nilSlice_def
        lowerChar_def)

lemma decode_countries_elements:
  "DecodeBlockingRequest (Some (JObject [(''countries'', JArray [JNull, JString ''RU''])]))
     = Inr \<lparr>Countries = ['''', ''RU'']\<rparr>"
  "DecodeBlockingRequest (Some (JObject [(''countries'', JString ''RU'')]))
     = Inl UnmarshalTypeError"
  "DecodeBlockingRequest (Some (JObject [(''countries'', JArray [JString ''RU'', JNumber])]))
     = Inl UnmarshalTypeError"
  "DecodeBlockingRequest (Some (JArray [JString ''RU''])) = Inl UnmarshalTypeError"
  "DecodeBlockingRequest (Some JNull) = Inr \<lparr>Countries = []\<rparr>"
  by (simp_all add: DecodeBlockingRequest_def decodeSliceStruct_def sliceValue_def nilSlice_def
        lowerChar_def)

lemmas writer_defs =
  Error_def Write_def WriteHeader_def Header_Set_def Header_Del_def Encode_def statusCode_def
  Let_def

lemma cors_status: "status (Header_Set w k v) = status w"
  and cors_written: "written (Header_Set w k v) = written w"
  by (simp_all add: Header_Set_def)

lemma enableCORS_passes:
  "Method r \<noteq> ''OPTIONS'' \<Longrightarrow>
   enableCORS next wd g w r =
     next wd g
       (Header_Set
          (Header_Set (Header_Set w ''Access-Control-Allow-Origin'' ''*'')
             ''Access-Control-Allow-Methods'' ''GET, POST, PUT, DELETE, OPTIONS'')
          ''Access-Control-Allow-Headers'' ''Content-Type, Authorization'')
       r"
  by (simp add: enableCORS_def Let_def)

lemma enableCORS_frame:
  assumes "\<And>w'. fst (next wd g w' r) = g"
  shows "fst (enableCORS next wd g w r) = g"
  using assms by (simp add: enableCORS_def Let_def)

section \<open>IP extraction\<close>

text \<open>
  Claim C5. \<open>getRealIP\<close> takes, in this order, the first non-empty of: the first
  comma-separated entry of \<open>X-Forwarded-For\<close> with white space trimmed, \<open>X-Real-IP\<close>,
  \<open>CF-Connecting-IP\<close>, and the peer address \<open>RemoteAddr\<close>, where a bracketed
  literal \<open>[addr]:port\<close> gives \<open>addr\<close> and \<open>host:port\<close> gives \<open>host\<close>. With
  \<open>X-Forwarded-For: 1.2.3.4, 5.6.7.8\<close> the result is \<open>1.2.3.4\<close>. Trimming removes
  the white space around the first entry: when that entry is an address (digits,
  hexadecimal letters, dots, colons) with blanks and tabs before and after it, the
  result is the address alone, as for the header value \<open>" 1.2.3.4 , 5.6.7.8"\<close>.
\<close>

theorem getRealIP_precedence:
  assumes "xff = Header_Get (Header r) ''X-Forwarded-For''"
    and "first = TrimSpace (takeWhile (\<lambda>c. c \<noteq> CHR '','') xff)"
    and "xri = Header_Get (Header r) ''X-Real-IP''"
    and "cfip = Header_Get (Header r) ''CF-Connecting-IP''"
  shows "(first \<noteq> [] \<longrightarrow> getRealIP r = first)
       \<and> (first = [] \<and> xri \<noteq> [] \<longrightarrow> getRealIP r = xri)
       \<and> (first = [] \<and> xri = [] \<and> cfip \<noteq> [] \<longrightarrow> getRealIP r = cfip)
       \<and> (first = [] \<and> xri = [] \<and> cfip = [] \<longrightarrow>
            (\<forall>addr rest. RemoteAddr r = ''['' @ addr @ '']'' @ rest \<and> CHR '']'' \<notin> set addr
                \<longrightarrow> getRealIP r = addr)
          \<and> (\<forall>host port. RemoteAddr r = host @ '':'' @ port \<and> CHR '':'' \<notin> set port
                \<and> host \<noteq> [] \<and> \<not> HasPrefix host ''['' \<longrightarrow> getRealIP r = host))
       \<and> (xff = ''1.2.3.4, 5.6.7.8'' \<longrightarrow> getRealIP r = ''1.2.3.4'')
       \<and> (xff = '' 1.2.3.4 , 5.6.7.8'' \<longrightarrow> getRealIP r = ''1.2.3.4'')
       \<and> (\<forall>ws1 core ws2 rest.
            (xff = ws1 @ core @ ws2 \<or> xff = ws1 @ core @ ws2 @ '','' @ rest)
            \<and> set ws1 \<subseteq> {CHR '' '', CHR 0x09} \<and> set ws2 \<subseteq> {CHR '' '', CHR 0x09}
            \<and> core \<noteq> [] \<and> set core \<subseteq> set ''0123456789abcdefABCDEF.:''
            \<longrightarrow> getRealIP r = core)"
proof -
  have x0: "xff = [] \<Longrightarrow> first = []"
    using assms(2) by (simp add: TrimSpace_def TrimLeft.simps TrimRight.simps
        leadingSpace_def trailingSpace_def HasSuffix_def spaceRunes_def)
  have ip: "TrimSpace (Split xff (CHR '','') ! 0) = first"
    by (simp add: assms(2) Split_first)
  have 1: "first \<noteq> [] \<longrightarrow> getRealIP r = first"
    using x0 ip by (auto simp: getRealIP_def Let_def assms(1)[symmetric])
  have hdr: "first = [] \<Longrightarrow> getRealIP r =
      (if xri \<noteq> [] then xri
       else if cfip \<noteq> [] then cfip
       else if HasPrefix (RemoteAddr r) ''['' \<and> Index (RemoteAddr r) '']'' > 0
         then substring (RemoteAddr r) 1 (nat (Index (RemoteAddr r) '']''))
       else if LastIndex (RemoteAddr r) '':'' > 0
         then substring (RemoteAddr r) 0 (nat (LastIndex (RemoteAddr r) '':''))
       else RemoteAddr r)"
    using ip
    by (simp add: getRealIP_def Let_def assms(1)[symmetric] assms(3)[symmetric] assms(4)[symmetric])
  have 2: "first = [] \<and> xri \<noteq> [] \<longrightarrow> getRealIP r = xri"
    by (simp add: hdr)
  have 3: "first = [] \<and> xri = [] \<and> cfip \<noteq> [] \<longrightarrow> getRealIP r = cfip"
    by (simp add: hdr)
  have 4: "first = [] \<and> xri = [] \<and> cfip = [] \<longrightarrow>
            (\<forall>addr rest. RemoteAddr r = ''['' @ addr @ '']'' @ rest \<and> CHR '']'' \<notin> set addr
                \<longrightarrow> getRealIP r = addr)"
  proof (intro impI allI)
    fix addr rest
    assume h: "first = [] \<and> xri = [] \<and> cfip = []"
      and a: "RemoteAddr r = ''['' @ addr @ '']'' @ rest \<and> CHR '']'' \<notin> set addr"
    have "Index (RemoteAddr r) '']'' = int (length (''['' @ addr))"
      using a Index_first[of "CHR '']''" "''['' @ addr" rest] by simp
    then show "getRealIP r = addr"
      using h a by (simp add: hdr substring_def)
  qed
  have 5: "first = [] \<and> xri = [] \<and> cfip = [] \<longrightarrow>
            (\<forall>host port. RemoteAddr r = host @ '':'' @ port \<and> CHR '':'' \<notin> set port
                \<and> host \<noteq> [] \<and> \<not> HasPrefix host ''['' \<longrightarrow> getRealIP r = host)"
  proof (intro impI allI)
    fix host port
    assume h: "first = [] \<and> xri = [] \<and> cfip = []"
      and a: "RemoteAddr r = host @ '':'' @ port \<and> CHR '':'' \<notin> set port
                \<and> host \<noteq> [] \<and> \<not> HasPrefix host ''[''"
    have l: "LastIndex (RemoteAddr r) '':'' = int (length host)"
      using a LastIndex_last[of "CHR '':''" port host] by simp
    have p: "\<not> HasPrefix (RemoteAddr r) ''[''"
      using a by (cases host) auto
    show "getRealIP r = host"
      using h a l p by (simp add: hdr substring_def)
  qed
  have 6: "xff = ''1.2.3.4, 5.6.7.8'' \<longrightarrow> getRealIP r = ''1.2.3.4''"
  proof
    assume e: "xff = ''1.2.3.4, 5.6.7.8''"
    then have "first = ''1.2.3.4''"
      using assms(2) by (simp add: TrimSpace_example)
    with 1 show "getRealIP r = ''1.2.3.4''" by simp
  qed
  have 8: "\<forall>ws1 core ws2 rest.
            (xff = ws1 @ core @ ws2 \<or> xff = ws1 @ core @ ws2 @ '','' @ rest)
            \<and> set ws1 \<subseteq> {CHR '' '', CHR 0x09} \<and> set ws2 \<subseteq> {CHR '' '', CHR 0x09}
            \<and> core \<noteq> [] \<and> set core \<subseteq> set ''0123456789abcdefABCDEF.:''
            \<longrightarrow> getRealIP r = core"
  proof (intro allI impI)
    fix ws1 core ws2 rest
    assume a: "(xff = ws1 @ core @ ws2 \<or> xff = ws1 @ core @ ws2 @ '','' @ rest)
            \<and> set ws1 \<subseteq> {CHR '' '', CHR 0x09} \<and> set ws2 \<subseteq> {CHR '' '', CHR 0x09}
            \<and> core \<noteq> [] \<and> set core \<subseteq> set ''0123456789abcdefABCDEF.:''"
    have "CHR '','' \<notin> set ''0123456789abcdefABCDEF.:''" by simp
    with a have "CHR '','' \<notin> set core" by blast
    moreover from a have "CHR '','' \<notin> set ws1" and "CHR '','' \<notin> set ws2" by auto
    ultimately have n: "CHR '','' \<notin> set (ws1 @ core @ ws2)" by simp
    have "takeWhile (\<lambda>c. c \<noteq> CHR '','') ((ws1 @ core @ ws2) @ CHR '','' # rest) = ws1 @ core @ ws2"
      and "takeWhile (\<lambda>c. c \<noteq> CHR '','') (ws1 @ core @ ws2) = ws1 @ core @ ws2"
      using n by (auto simp: takeWhile_tail simp del: append_assoc)
    with a have "takeWhile (\<lambda>c. c \<noteq> CHR '','') xff = ws1 @ core @ ws2" by force
    moreover from a have "TrimSpace (ws1 @ core @ ws2) = core"
      by (intro TrimSpace_address) simp_all
    ultimately have "first = core" by (simp add: assms(2))
    moreover from a have "core \<noteq> []" by simp
    ultimately show "getRealIP r = core" using 1 by simp
  qed
  have 7: "xff = '' 1.2.3.4 , 5.6.7.8'' \<longrightarrow> getRealIP r = ''1.2.3.4''"
    using 8[rule_format, of "'' ''" "''1.2.3.4''" "'' ''" "'' 5.6.7.8''"] by simp
  from 1 2 3 4 5 6 7 8 show ?thesis by blast
qed

theorem getRealIP_precedence_witness:
  "getRealIP (getRequest [''X-Forwarded-For'' \<mapsto> [''1.2.3.4, 5.6.7.8''], ''X-Real-Ip'' \<mapsto> [''9.9.9.9'']]
                ''10.0.0.1:4711'') = ''1.2.3.4''
   \<and> getRealIP (getRequest [''X-Real-Ip'' \<mapsto> [''9.9.9.9''], ''Cf-Connecting-Ip'' \<mapsto> [''7.7.7.7'']]
                ''10.0.0.1:4711'') = ''9.9.9.9''
   \<and> getRealIP (getRequest [''Cf-Connecting-Ip'' \<mapsto> [''7.7.7.7'']] ''10.0.0.1:4711'') = ''7.7.7.7''
   \<and> getRealIP (getRequest Map.empty ''[::1]:12345'') = ''::1''
   \<and> getRealIP (getRequest Map.empty ''203.0.113.7:4711'') = ''203.0.113.7''
   \<and> getRealIP (getRequest [''X-Forwarded-For'' \<mapsto> ['' 1.2.3.4 , 5.6.7.8'']] ''10.0.0.1:4711'')
        = ''1.2.3.4''
   \<and> getRealIP (getRequest [''X-Forwarded-For'' \<mapsto> [[CHR 0x09] @ ''2001:db8::1  '']]
                ''10.0.0.1:4711'') = ''2001:db8::1''"
proof -
  have k: "CanonicalMIMEHeaderKey ''X-Forwarded-For'' = ''X-Forwarded-For''"
    "CanonicalMIMEHeaderKey ''X-Real-IP'' = ''X-Real-Ip''"
    "CanonicalMIMEHeaderKey ''CF-Connecting-IP'' = ''Cf-Connecting-Ip''"
    by (simp_all add: CanonicalMIMEHeaderKey_def upperChar_def lowerChar_def)
  note t = getRealIP_precedence[OF refl refl refl refl]
  have 1: "getRealIP (getRequest [''X-Forwarded-For'' \<mapsto> [''1.2.3.4, 5.6.7.8''], ''X-Real-Ip'' \<mapsto> [''9.9.9.9'']]
                ''10.0.0.1:4711'') = ''1.2.3.4''"
    using t[of "getRequest [''X-Forwarded-For'' \<mapsto> [''1.2.3.4, 5.6.7.8''], ''X-Real-Ip'' \<mapsto> [''9.9.9.9'']]
                ''10.0.0.1:4711''", THEN conjunct2, THEN conjunct2, THEN conjunct2, THEN conjunct2,
        THEN conjunct1]
    by (simp add: getRequest_def Header_Get_def k)
  have 2: "getRealIP (getRequest [''X-Real-Ip'' \<mapsto> [''9.9.9.9''], ''Cf-Connecting-Ip'' \<mapsto> [''7.7.7.7'']]
                ''10.0.0.1:4711'') = ''9.9.9.9''"
    using t[of "getRequest [''X-Real-Ip'' \<mapsto> [''9.9.9.9''], ''Cf-Connecting-Ip'' \<mapsto> [''7.7.7.7'']]
                ''10.0.0.1:4711''", THEN conjunct2, THEN conjunct1]
    by (simp add: getRequest_def Header_Get_def k TrimSpace_empty)
  have 3: "getRealIP (getRequest [''Cf-Connecting-Ip'' \<mapsto> [''7.7.7.7'']] ''10.0.0.1:4711'') = ''7.7.7.7''"
    using t[of "getRequest [''Cf-Connecting-Ip'' \<mapsto> [''7.7.7.7'']] ''10.0.0.1:4711''",
        THEN conjunct2, THEN conjunct2, THEN conjunct1]
    by (simp add: getRequest_def Header_Get_def k TrimSpace_empty)
  have 4: "getRealIP (getRequest Map.empty ''[::1]:12345'') = ''::1''"
    using t[of "getRequest Map.empty ''[::1]:12345''", THEN conjunct2, THEN conjunct2, THEN conjunct2,
        THEN conjunct1, THEN mp, THEN conjunct1, rule_format, of "''::1''" "'':12345''"]
    by (simp add: getRequest_def Header_Get_def k TrimSpace_empty)
  have 5: "getRealIP (getRequest Map.empty ''203.0.113.7:4711'') = ''203.0.113.7''"
    using t[of "getRequest Map.empty ''203.0.113.7:4711''", THEN conjunct2, THEN conjunct2, THEN conjunct2,
        THEN conjunct1, THEN mp, THEN conjunct2, rule_format, of "''203.0.113.7''" "''4711''"]
    by (simp add: getRequest_def Header_Get_def k TrimSpace_empty)
  have 6: "getRealIP (getRequest [''X-Forwarded-For'' \<mapsto> ['' 1.2.3.4 , 5.6.7.8'']] ''10.0.0.1:4711'')
        = ''1.2.3.4''"
    using t[of "getRequest [''X-Forwarded-For'' \<mapsto> ['' 1.2.3.4 , 5.6.7.8'']] ''10.0.0.1:4711''",
        THEN conjunct2, THEN conjunct2, THEN conjunct2, THEN conjunct2, THEN conjunct2,
        THEN conjunct1]
    by (simp add: getRequest_def Header_Get_def k)
  have 7: "getRealIP (getRequest [''X-Forwarded-For'' \<mapsto> [[CHR 0x09] @ ''2001:db8::1  '']]
                ''10.0.0.1:4711'') = ''2001:db8::1''"
    using t[of "getRequest [''X-Forwarded-For'' \<mapsto> [[CHR 0x09] @ ''2001:db8::1  '']] ''10.0.0.1:4711''",
        THEN conjunct2, THEN conjunct2, THEN conjunct2, THEN conjunct2, THEN conjunct2,
        THEN conjunct2, rule_format, of "[CHR 0x09]" "''2001:db8::1''" "''  ''" "[]"]
    by (simp add: getRequest_def Header_Get_def k)
  from 1 2 3 4 5 6 7 show ?thesis by blast
qed

lemma getRealIP_peer_203: "getRealIP (getRequest Map.empty ''203.0.113.7:4711'') = ''203.0.113.7''"
  by (simp add: getRealIP_def getRequest_def Header_Get_def Let_def substring_def TrimSpace_empty)

lemma getRealIP_peer_loopback: "getRealIP (getRequest Map.empty ''127.0.0.1:50000'') = ''127.0.0.1''"
  by (simp add: getRealIP_def getRequest_def Header_Get_def Let_def substring_def TrimSpace_empty)

section \<open>Private address classification\<close>

lemma public_203: "\<not> isPrivateIP ''203.0.113.7''"
  by (simp add: isPrivateIP_def)

lemma private_loopback: "isPrivateIP ''127.0.0.1''"
  by (simp add: isPrivateIP_def)

text \<open>
  Claim C3 fails on the code. \<open>isPrivateIP\<close> tests the prefix \<open>172.2\<close> where the
  range 172.20 to 172.29 is meant, so it also classifies as private the public
  addresses that start with \<open>172.2.\<close> or with \<open>172.200\<close> to \<open>172.255\<close>:
  172.217.0.1 lies in none of the reserved ranges and is classified private. Lemma
  \<open>isPrivateIP_dotted\<close> below shows that these are the only dotted addresses on
  which the code and the reserved ranges differ.
\<close>

theorem isPrivateIP_public_address:
  "dotted (172, 217, 0, 1) = ''172.217.0.1''
   \<and> \<not> reservedRange (172, 217, 0, 1)
   \<and> isPrivateIP ''172.217.0.1''
   \<and> dotted (172, 2, 3, 4) = ''172.2.3.4''
   \<and> \<not> reservedRange (172, 2, 3, 4)
   \<and> isPrivateIP ''172.2.3.4''"
  by (simp add: dotted_def reservedRange_def isPrivateIP_def digits.simps)

text \<open>
  On dotted IPv4 addresses \<open>isPrivateIP\<close> accepts every address of the reserved
  ranges, and beyond them exactly the addresses 172.2.x.x and 172.200.x.x to
  172.255.x.x.
\<close>

lemma isPrivateIP_dotted:
  assumes "b < 256"
  shows "isPrivateIP (dotted (a, b, c, d)) \<longleftrightarrow>
           reservedRange (a, b, c, d) \<or> (a = 172 \<and> (b = 2 \<or> 200 \<le> b))"
proof -
  let ?r = "digits c @ ''.'' @ digits d"
  let ?s = "digits a @ CHR ''.'' # digits b @ CHR ''.'' # ?r"
  have s: "dotted (a, b, c, d) = ?s" by (simp add: dotted_def)
  have one: "HasPrefix ?s (digits k @ ''.'') \<longleftrightarrow> a = k" for k
    using HasPrefix_separator[of "CHR ''.''" "digits a" "digits k" "digits b @ CHR ''.'' # ?r" "[]"]
    by (simp add: digits_no_dot digits_eq_iff)
  have two: "HasPrefix ?s (digits k @ ''.'' @ digits l @ ''.'') \<longleftrightarrow> a = k \<and> b = l" for k l
    using HasPrefix_separator[of "CHR ''.''" "digits a" "digits k" "digits b @ CHR ''.'' # ?r"
        "digits l @ ''.''"]
      HasPrefix_separator[of "CHR ''.''" "digits b" "digits l" ?r "[]"]
    by (simp add: digits_no_dot digits_eq_iff)
  have lead: "HasPrefix ?s (digits 172 @ ''.'' @ ''2'') \<longleftrightarrow>
      a = 172 \<and> (b = 2 \<or> (20 \<le> b \<and> b \<le> 29) \<or> 200 \<le> b)"
    using HasPrefix_separator[of "CHR ''.''" "digits a" "digits 172" "digits b @ CHR ''.'' # ?r" "''2''"]
      leading_two[OF assms, of "CHR ''.'' # ?r"]
    by (simp add: digits_no_dot digits_eq_iff)
  have v6: "?s \<noteq> ''::1''"
    using digits_not_Nil[of a] digits_set[of a] by (cases "digits a") auto
  have "isPrivateIP ?s \<longleftrightarrow>
      (a = 192 \<and> b = 168) \<or> a = 10 \<or> (a = 172 \<and> b = 16) \<or> (a = 172 \<and> b = 17)
      \<or> (a = 172 \<and> b = 18) \<or> (a = 172 \<and> b = 19)
      \<or> (a = 172 \<and> (b = 2 \<or> (20 \<le> b \<and> b \<le> 29) \<or> 200 \<le> b))
      \<or> (a = 172 \<and> b = 30) \<or> (a = 172 \<and> b = 31) \<or> a = 127"
    unfolding isPrivateIP_def
    using one[of 10] one[of 127] two[of 192 168] two[of 172 16] two[of 172 17] two[of 172 18]
      two[of 172 19] two[of 172 30] two[of 172 31] lead v6
    by (simp only: digits_values append.simps simp_thms)
  moreover have "16 \<le> b \<and> b \<le> 31 \<longleftrightarrow>
      b = 16 \<or> b = 17 \<or> b = 18 \<or> b = 19 \<or> (20 \<le> b \<and> b \<le> 29) \<or> b = 30 \<or> b = 31"
    by arith
  ultimately show ?thesis
    unfolding s reservedRange_def by (simp only: prod.case) blast
qed

section \<open>Facts about the geo resolver\<close>

lemma getCountryFromIPAddress_result:
  "getCountryFromIPAddress wd ip = (c, e) \<Longrightarrow> (e = None \<longrightarrow> c \<noteq> []) \<and> (e \<noteq> None \<longrightarrow> c = [])"
  by (subst (asm) getCountryFromIPAddress.simps)
     (auto split: if_splits prod.splits option.splits sum.splits)

lemma getRealPublicIP_loop_result:
  "getRealPublicIP_loop wd ss = (ip, c, e) \<Longrightarrow>
     (e = None \<longrightarrow> ip \<noteq> [] \<and> \<not> isPrivateIP ip) \<and> (e \<noteq> None \<longrightarrow> ip = [] \<and> c = [])"
proof (induction ss)
  case Nil
  then show ?case by (auto simp: getRealPublicIP_loop.simps)
next
  case (Cons service rest)
  show ?case
  proof (cases "getRealPublicIP_loop wd (service # rest) = getRealPublicIP_loop wd rest")
    case True
    with Cons show ?thesis by simp
  next
    case False
    with Cons.prems show ?thesis
      by (subst (asm) (1 2) getRealPublicIP_loop.simps)
         (auto split: if_splits prod.splits option.splits)
  qed
qed

lemma getRealPublicIPAndCountry_result:
  assumes "getRealPublicIPAndCountry wd = (ip, c, e)"
  shows "(e = None \<longrightarrow> ip \<noteq> [] \<and> \<not> isPrivateIP ip) \<and> (e \<noteq> None \<longrightarrow> ip = [] \<and> c = [])"
proof (cases "getRealPublicIPAndCountry wd = getRealPublicIP_loop wd services")
  case True
  with assms show ?thesis by (simp add: getRealPublicIP_loop_result)
next
  case False
  with assms show ?thesis
    by (subst (asm) (1 2) getRealPublicIPAndCountry.simps)
       (auto simp: getRealPublicIP.simps split: if_splits option.splits sum.splits)
qed

text \<open>
  The country the gate decides on is the resolver's answer for the client address,
  with \<open>UNKNOWN\<close> standing for a failed resolution.
\<close>

lemma gateCountry_eq:
  "gateCountry wd r =
     (getRealIP r,
      (if isPrivateIP (getRealIP r) then
         (case getRealPublicIPAndCountry wd of
            (realIP, realCountry, err) \<Rightarrow> if err = None then realIP else getRealIP r)
       else getRealIP r),
      (case getCountryFromIPAddress wd (getRealIP r) of
         (c, err) \<Rightarrow> if err = None then c else ''UNKNOWN''))"
proof (cases "isPrivateIP (getRealIP r)")
  case True
  obtain realIP realCountry err where d: "getRealPublicIPAndCountry wd = (realIP, realCountry, err)"
    by (cases "getRealPublicIPAndCountry wd") auto
  from getRealPublicIPAndCountry_result[OF d] True d show ?thesis
    by (cases err)
       (auto simp: gateCountry_def Let_def getCountryFromIPAddress.simps[of wd "getRealIP r"])
next
  case False
  obtain c e where g: "getCountryFromIPAddress wd (getRealIP r) = (c, e)"
    by (cases "getCountryFromIPAddress wd (getRealIP r)") auto
  from getCountryFromIPAddress_result[OF g] False g show ?thesis
    by (auto simp: gateCountry_def Let_def)
qed

lemma ipinfoWorld_country:
  "\<not> isPrivateIP ip \<Longrightarrow> country \<noteq> [] \<Longrightarrow>
   getCountryFromIPAddress (ipinfoWorld ip country) ip = (country, None)"
  by (simp add: getCountryFromIPAddress.simps ipinfoWorld_def decode_ipinfo_answer)

lemma ipinfoWorld_discovery:
  "\<not> isPrivateIP ip \<Longrightarrow> ip \<noteq> [] \<Longrightarrow> country \<noteq> [] \<Longrightarrow>
   getRealPublicIPAndCountry (ipinfoWorld ip country) = (ip, country, None)"
  by (simp add: getRealPublicIPAndCountry.simps ipinfoWorld_def decode_ipinfo_answer)

lemma offline_country:
  "\<not> isPrivateIP ip \<Longrightarrow> getCountryFromIPAddress offline ip = ([], Some (FailedToGetCountry ip))"
  by (simp add: getCountryFromIPAddress.simps offline_def)

lemma offline_discovery: "getRealPublicIPAndCountry offline = ([], [], Some NoPublicIP)"
  by (simp add: getRealPublicIPAndCountry.simps getRealPublicIP.simps getRealPublicIP_loop.simps
        services_def offline_def)

lemma offline_country_private:
  "isPrivateIP ip \<Longrightarrow> getCountryFromIPAddress offline ip = ([], Some (CannotDeterminePrivate ip))"
  by (simp add: getCountryFromIPAddress.simps offline_discovery)

lemma fallbackWorld_country:
  "\<not> isPrivateIP ip \<Longrightarrow> country \<noteq> [] \<Longrightarrow>
   getCountryFromIPAddress (fallbackWorld ip country) ip = (country, None)"
  by (simp add: getCountryFromIPAddress.simps fallbackWorld_def decode_ipinfo_answer)

lemma fallbackWorld_discovery:
  "getRealPublicIPAndCountry (fallbackWorld ''203.0.113.7'' ''DE'') = (''203.0.113.7'', ''DE'', None)"
proof -
  have j: "GetJSON (fallbackWorld ''203.0.113.7'' ''DE'') ''https://ipinfo.io/json'' = None"
    by (simp add: fallbackWorld_def)
  have t1: "GetText (fallbackWorld ''203.0.113.7'' ''DE'') ''https://api.ipify.org?format=text'' = None"
    by (simp add: fallbackWorld_def)
  have t2: "GetText (fallbackWorld ''203.0.113.7'' ''DE'') ''https://checkip.amazonaws.com''
      = Some \<lparr>StatusCode = 200, RespBody = Some (''203.0.113.7'' @ [CHR 0x0A])\<rparr>"
    by (simp add: fallbackWorld_def)
  show ?thesis
    by (simp add: getRealPublicIPAndCountry.simps getRealPublicIP.simps services_def
          getRealPublicIP_loop.simps j t1 t2 TrimSpace_line public_203
          fallbackWorld_country del: append.simps)
qed

section \<open>The block list store\<close>

lemma contains_iff: "contains slice item \<longleftrightarrow> item \<in> set slice"
  by (induction slice) auto

lemma handleBlockCountries_stores:
  "Method r = ''POST'' \<Longrightarrow> DecodeBlockingRequest (Body r) = Inr req \<Longrightarrow>
   blockedCountriesList (fst (handleBlockCountries wd g w r)) = Countries req"
  by (simp add: handleBlockCountries_def Let_def)

text \<open>
  Claim C2. After a block-countries call that carries the country list \<open>B\<close>
  (\<open>Countries req\<close>), the block list is \<open>B\<close> whatever it was before, so the membership
  test \<open>contains blockedCountriesList code\<close> is true for exactly the codes in \<open>B\<close>;
  and with the initial (empty) block list no code is blocked.
\<close>

theorem block_countries_membership:
  assumes "Method r = ''POST''" and "DecodeBlockingRequest (Body r) = Inr req"
  shows "blockedCountriesList (fst (api_block_countries wd g w r)) = Countries req
       \<and> (\<forall>code. contains (blockedCountriesList (fst (api_block_countries wd g w r))) code
                   \<longleftrightarrow> code \<in> set (Countries req))
       \<and> (\<forall>code. \<not> contains (blockedCountriesList initialGlobals) code)"
  using assms
  by (simp add: api_block_countries_def enableCORS_passes handleBlockCountries_stores
        contains_iff initialGlobals_def)

theorem block_countries_membership_witness:
  "Method (postRequest (Some (JObject [(''countries'', JArray [JString ''RU'', JString ''CN''])]))) = ''POST''
   \<and> DecodeBlockingRequest
         (Body (postRequest (Some (JObject [(''countries'', JArray [JString ''RU'', JString ''CN''])]))))
       = Inr \<lparr>Countries = [''RU'', ''CN'']\<rparr>
   \<and> contains (blockedCountriesList (fst (api_block_countries offline
         \<lparr>blockedCountriesList = [''DE'']\<rparr> newResponseWriter
         (postRequest (Some (JObject [(''countries'', JArray [JString ''RU'', JString ''CN''])])))))) ''RU''
   \<and> \<not> contains (blockedCountriesList (fst (api_block_countries offline
         \<lparr>blockedCountriesList = [''DE'']\<rparr> newResponseWriter
         (postRequest (Some (JObject [(''countries'', JArray [JString ''RU'', JString ''CN''])])))))) ''DE''
   \<and> DecodeBlockingRequest
         (Body (postRequest (Some (JObject [(''countries'', JArray [JString ''RU'']),
                                            (''countries'', JArray [JNull])]))))
       = Inr \<lparr>Countries = [''RU'']\<rparr>
   \<and> blockedCountriesList (fst (api_block_countries offline
         \<lparr>blockedCountriesList = [''DE'']\<rparr> newResponseWriter
         (postRequest (Some (JObject [(''countries'', JArray [JString ''RU'']),
                                      (''countries'', JArray [JNull])]))))) = [''RU'']
   \<and> DecodeBlockingRequest
         (Body (postRequest (Some (JObject [(''countries'', JArray [JString ''RU'', JString ''CN'']),
                                            (''countries'', JNull)]))))
       = Inr \<lparr>Countries = []\<rparr>
   \<and> blockedCountriesList (fst (api_block_countries offline
         \<lparr>blockedCountriesList = [''DE'']\<rparr> newResponseWriter
         (postRequest (Some (JObject [(''countries'', JArray [JString ''RU'', JString ''CN'']),
                                      (''countries'', JNull)]))))) = []
   \<and> DecodeBlockingRequest
         (Body (postRequest (Some (JObject
            [(''countrie'' @ [CHR 0xC5, CHR 0xBF], JArray [JString ''RU''])]))))
       = Inr \<lparr>Countries = [''RU'']\<rparr>
   \<and> blockedCountriesList (fst (api_block_countries offline
         \<lparr>blockedCountriesList = [''DE'']\<rparr> newResponseWriter
         (postRequest (Some (JObject
            [(''countrie'' @ [CHR 0xC5, CHR 0xBF], JArray [JString ''RU''])]))))) = [''RU'']"
proof -
  let ?g = "\<lparr>blockedCountriesList = [''DE'']\<rparr>"
  let ?r1 = "postRequest (Some (JObject [(''countries'', JArray [JString ''RU'', JString ''CN''])]))"
  let ?r2 = "postRequest (Some (JObject [(''countries'', JArray [JString ''RU'']),
                                         (''countries'', JArray [JNull])]))"
  let ?r3 = "postRequest (Some (JObject [(''countries'', JArray [JString ''RU'', JString ''CN'']),
                                         (''countries'', JNull)]))"
  let ?r4 = "postRequest (Some (JObject
            [(''countrie'' @ [CHR 0xC5, CHR 0xBF], JArray [JString ''RU''])]))"
  have m: "Method ?r1 = ''POST''" "Method ?r2 = ''POST''" "Method ?r3 = ''POST''"
    "Method ?r4 = ''POST''"
    by (simp_all add: postRequest_def)
  have d1: "DecodeBlockingRequest (Body ?r1) = Inr \<lparr>Countries = [''RU'', ''CN'']\<rparr>"
    by (simp add: postRequest_def decode_countries_RU_CN)
  have d2: "DecodeBlockingRequest (Body ?r2) = Inr \<lparr>Countries = [''RU'']\<rparr>"
    by (simp add: postRequest_def decode_countries_repeated_key(2))
  have d3: "DecodeBlockingRequest (Body ?r3) = Inr \<lparr>Countries = []\<rparr>"
    by (simp add: postRequest_def decode_countries_repeated_key(1))
  have d4: "DecodeBlockingRequest (Body ?r4) = Inr \<lparr>Countries = [''RU'']\<rparr>"
    using decode_countries_folded_key(1) by (simp add: postRequest_def)
  note t1 = block_countries_membership[OF m(1) d1, of offline ?g newResponseWriter]
  note t2 = block_countries_membership[OF m(2) d2, of offline ?g newResponseWriter]
  note t3 = block_countries_membership[OF m(3) d3, of offline ?g newResponseWriter]
  note t4 = block_countries_membership[OF m(4) d4, of offline ?g newResponseWriter]
  from t1 have 1: "contains (blockedCountriesList (fst (api_block_countries offline ?g
      newResponseWriter ?r1))) ''RU''"
    and 2: "\<not> contains (blockedCountriesList (fst (api_block_countries offline ?g
      newResponseWriter ?r1))) ''DE''"
    by simp_all
  from t2 have 3: "blockedCountriesList (fst (api_block_countries offline ?g
      newResponseWriter ?r2)) = [''RU'']" by simp
  from t3 have 4: "blockedCountriesList (fst (api_block_countries offline ?g
      newResponseWriter ?r3)) = []" by simp
  from t4 have 5: "blockedCountriesList (fst (api_block_countries offline ?g
      newResponseWriter ?r4)) = [''RU'']" by simp
  show ?thesis
    by (intro conjI m(1) d1 1 2 d2 3 d3 4 d4 5)
qed

section \<open>VPN simulation endpoint\<close>

lemma generateSimulatedIP_not_empty: "generateSimulatedIP countryCode \<noteq> []"
  by (simp add: generateSimulatedIP_def)

lemma handleSimulateVPN_frame: "fst (handleSimulateVPN wd g w r) = g"
  by (simp add: handleSimulateVPN_def Let_def split: sum.splits prod.splits)

lemma handleSimulateVPN_blocked:
  assumes "Method r = ''POST''" and "DecodeVPNSimulationRequest (Body r) = Inr req"
    and "CountryCode req \<noteq> []" and "status w = None"
    and "contains (blockedCountriesList g) (CountryCode req)"
  shows "statusCode (snd (handleSimulateVPN wd g w r)) = 403
     \<and> (\<exists>resp. written (snd (handleSimulateVPN wd g w r)) = written w @ [VPNSimulationBody resp]
          \<and> V_IsBlocked resp \<and> V_CountryCode resp = CountryCode req
          \<and> V_SimulatedIP resp = generateSimulatedIP (CountryCode req))"
  using assms
  by (simp add: handleSimulateVPN_def Let_def writer_defs split: prod.splits)

lemma handleSimulateVPN_allowed:
  assumes "Method r = ''POST''" and "DecodeVPNSimulationRequest (Body r) = Inr req"
    and "CountryCode req \<noteq> []" and "status w = None"
    and "\<not> contains (blockedCountriesList g) (CountryCode req)"
  shows "statusCode (snd (handleSimulateVPN wd g w r)) = 200
     \<and> (\<exists>resp. written (snd (handleSimulateVPN wd g w r)) = written w @ [VPNSimulationBody resp]
          \<and> \<not> V_IsBlocked resp \<and> V_CountryCode resp = CountryCode req
          \<and> V_SimulatedIP resp = generateSimulatedIP (CountryCode req))"
  using assms
  by (simp add: handleSimulateVPN_def Let_def writer_defs split: prod.splits)

text \<open>
  Claim C7. For a simulate-vpn request with a non-empty \<open>country_code\<close> \<open>C\<close>: when \<open>C\<close>
  is in the block list the endpoint answers 403 with \<open>is_blocked\<close> true and
  \<open>country_code\<close> \<open>C\<close>; otherwise it answers 200 with \<open>is_blocked\<close> false and a
  non-empty \<open>simulated_ip\<close>. In both cases the simulated address is
  \<open>generateSimulatedIP C\<close>, a function of the country code alone.
\<close>

theorem simulate_vpn_decision:
  assumes "Method r = ''POST''" and "DecodeVPNSimulationRequest (Body r) = Inr req"
    and "CountryCode req \<noteq> []" and "status w = None"
  shows "(contains (blockedCountriesList g) (CountryCode req) \<longrightarrow>
            statusCode (snd (api_simulate_vpn wd g w r)) = 403
          \<and> (\<exists>resp. written (snd (api_simulate_vpn wd g w r)) = written w @ [VPNSimulationBody resp]
                \<and> V_IsBlocked resp \<and> V_CountryCode resp = CountryCode req
                \<and> V_SimulatedIP resp = generateSimulatedIP (CountryCode req)))
       \<and> (\<not> contains (blockedCountriesList g) (CountryCode req) \<longrightarrow>
            statusCode (snd (api_simulate_vpn wd g w r)) = 200
          \<and> (\<exists>resp. written (snd (api_simulate_vpn wd g w r)) = written w @ [VPNSimulationBody resp]
                \<and> \<not> V_IsBlocked resp \<and> V_CountryCode resp = CountryCode req
                \<and> V_SimulatedIP resp = generateSimulatedIP (CountryCode req)
                \<and> V_SimulatedIP resp \<noteq> []))"
proof -
  let ?w = "Header_Set
          (Header_Set (Header_Set w ''Access-Control-Allow-Origin'' ''*'')
             ''Access-Control-Allow-Methods'' ''GET, POST, PUT, DELETE, OPTIONS'')
          ''Access-Control-Allow-Headers'' ''Content-Type, Authorization''"
  have m: "Method r \<noteq> ''OPTIONS''" using assms(1) by simp
  have e: "api_simulate_vpn wd g w r = handleSimulateVPN wd g ?w r"
    by (simp add: api_simulate_vpn_def enableCORS_passes[OF m])
  have s: "status ?w = None" and wr: "written ?w = written w"
    using assms(4) by (simp_all add: cors_status cors_written)
  show ?thesis
    unfolding e
    using handleSimulateVPN_blocked[OF assms(1-3) s, of g wd]
      handleSimulateVPN_allowed[OF assms(1-3) s, of g wd] generateSimulatedIP_not_empty
    by (auto simp: wr)
qed

theorem simulate_vpn_decision_witness:
  "Method (postRequest (Some (JObject [(''country_code'', JString ''DE'')]))) = ''POST''
   \<and> DecodeVPNSimulationRequest (Body (postRequest (Some (JObject [(''country_code'', JString ''DE'')]))))
       = Inr \<lparr>CountryCode = ''DE''\<rparr>
   \<and> CountryCode \<lparr>CountryCode = ''DE''\<rparr> \<noteq> []
   \<and> status newResponseWriter = None
   \<and> contains (blockedCountriesList \<lparr>blockedCountriesList = [''DE'']\<rparr>) ''DE''
   \<and> statusCode (snd (api_simulate_vpn offline \<lparr>blockedCountriesList = [''DE'']\<rparr> newResponseWriter
        (postRequest (Some (JObject [(''country_code'', JString ''DE'')]))))) = 403
   \<and> Method (postRequest (Some (JObject [(''country_code'', JString ''US'')]))) = ''POST''
   \<and> DecodeVPNSimulationRequest (Body (postRequest (Some (JObject [(''country_code'', JString ''US'')]))))
       = Inr \<lparr>CountryCode = ''US''\<rparr>
   \<and> \<not> contains (blockedCountriesList \<lparr>blockedCountriesList = [''DE'']\<rparr>) ''US''
   \<and> statusCode (snd (api_simulate_vpn offline \<lparr>blockedCountriesList = [''DE'']\<rparr> newResponseWriter
        (postRequest (Some (JObject [(''country_code'', JString ''US'')]))))) = 200
   \<and> generateSimulatedIP ''US'' = ''192.168.1.100''"
  using simulate_vpn_decision
    [of "postRequest (Some (JObject [(''country_code'', JString ''DE'')]))" "\<lparr>CountryCode = ''DE''\<rparr>"
        newResponseWriter "\<lparr>blockedCountriesList = [''DE'']\<rparr>" offline]
    simulate_vpn_decision
    [of "postRequest (Some (JObject [(''country_code'', JString ''US'')]))" "\<lparr>CountryCode = ''US''\<rparr>"
        newResponseWriter "\<lparr>blockedCountriesList = [''DE'']\<rparr>" offline]
  by (simp add: postRequest_def decode_country_code newResponseWriter_def generateSimulatedIP_def)

section \<open>Case sensitivity of the block list\<close>

text \<open>
  Claim C10. The block-countries call stores the request's list as it is, and the
  membership test compares byte by byte. So after blocking only a code \<open>c\<close> that
  upper-casing changes (such as \<open>de\<close>), a decision for its upper-case form is allowed
  (simulate-vpn answers 200), and after blocking only the upper-case form a decision
  for \<open>c\<close> is allowed.
\<close>

theorem block_list_case_sensitive:
  assumes "Method r = ''POST''" and "DecodeBlockingRequest (Body r) = Inr req"
    and "g' = fst (api_block_countries wd g w r)"
  shows "blockedCountriesList g' = Countries req
       \<and> (\<forall>code. contains (blockedCountriesList g') code \<longleftrightarrow> (\<exists>i < length (Countries req). Countries req ! i = code))
       \<and> (\<forall>c. ToUpper c \<noteq> c \<and> Countries req = [c] \<longrightarrow>
              \<not> contains (blockedCountriesList g') (ToUpper c))
       \<and> (\<forall>c. ToUpper c \<noteq> c \<and> Countries req = [ToUpper c] \<longrightarrow>
              \<not> contains (blockedCountriesList g') c)
       \<and> (\<forall>c r' req' w'. ToUpper c \<noteq> c \<and> Countries req = [c] \<and> Method r' = ''POST''
              \<and> DecodeVPNSimulationRequest (Body r') = Inr req' \<and> CountryCode req' = ToUpper c
              \<and> status w' = None \<longrightarrow>
              statusCode (snd (api_simulate_vpn wd g' w' r')) = 200)"
proof -
  have 1: "blockedCountriesList g' = Countries req"
    using assms
    by (simp add: api_block_countries_def enableCORS_passes handleBlockCountries_stores)
  have 2: "\<forall>code. contains (blockedCountriesList g') code \<longleftrightarrow> (\<exists>i < length (Countries req). Countries req ! i = code)"
    by (simp add: 1 contains_iff in_set_conv_nth)
  have 3: "\<forall>c. ToUpper c \<noteq> c \<and> Countries req = [c] \<longrightarrow>
              \<not> contains (blockedCountriesList g') (ToUpper c)"
    by (auto simp: 1)
  have 4: "\<forall>c. ToUpper c \<noteq> c \<and> Countries req = [ToUpper c] \<longrightarrow>
              \<not> contains (blockedCountriesList g') c"
    by (auto simp: 1)
  have 5: "\<forall>c r' req' w'. ToUpper c \<noteq> c \<and> Countries req = [c] \<and> Method r' = ''POST''
              \<and> DecodeVPNSimulationRequest (Body r') = Inr req' \<and> CountryCode req' = ToUpper c
              \<and> status w' = None \<longrightarrow>
              statusCode (snd (api_simulate_vpn wd g' w' r')) = 200"
  proof (intro allI impI)
    fix c and r' :: Request and req' and w' :: ResponseWriter
    assume a: "ToUpper c \<noteq> c \<and> Countries req = [c] \<and> Method r' = ''POST''
              \<and> DecodeVPNSimulationRequest (Body r') = Inr req' \<and> CountryCode req' = ToUpper c
              \<and> status w' = None"
    then have ne: "CountryCode req' \<noteq> []" by (auto simp: ToUpper_def)
    have nb: "\<not> contains (blockedCountriesList g') (CountryCode req')"
      using a by (auto simp: 1)
    let ?w = "Header_Set
          (Header_Set (Header_Set w' ''Access-Control-Allow-Origin'' ''*'')
             ''Access-Control-Allow-Methods'' ''GET, POST, PUT, DELETE, OPTIONS'')
          ''Access-Control-Allow-Headers'' ''Content-Type, Authorization''"
    have m: "Method r' \<noteq> ''OPTIONS''" using a by simp
    have s: "status ?w = None" using a by (simp add: cors_status)
    have "api_simulate_vpn wd g' w' r' = handleSimulateVPN wd g' ?w r'"
      by (simp add: api_simulate_vpn_def enableCORS_passes[OF m])
    with handleSimulateVPN_allowed[of r' req' ?w g' wd] a ne nb s
    show "statusCode (snd (api_simulate_vpn wd g' w' r')) = 200" by simp
  qed
  from 1 2 3 4 5 show ?thesis by blast
qed

theorem block_list_case_sensitive_witness:
  "Method (postRequest (Some (JObject [(''countries'', JArray [JString ''de''])]))) = ''POST''
   \<and> DecodeBlockingRequest (Body (postRequest (Some (JObject [(''countries'', JArray [JString ''de''])]))))
        = Inr \<lparr>Countries = [''de'']\<rparr>
   \<and> ToUpper ''de'' = ''DE''
   \<and> blockedCountriesList (fst (api_block_countries offline initialGlobals newResponseWriter
        (postRequest (Some (JObject [(''countries'', JArray [JString ''de''])]))))) = [''de'']
   \<and> \<not> contains (blockedCountriesList (fst (api_block_countries offline initialGlobals newResponseWriter
        (postRequest (Some (JObject [(''countries'', JArray [JString ''de''])])))))) ''DE''
   \<and> Method (postRequest (Some (JObject [(''country_code'', JString ''DE'')]))) = ''POST''
   \<and> DecodeVPNSimulationRequest (Body (postRequest (Some (JObject [(''country_code'', JString ''DE'')]))))
        = Inr \<lparr>CountryCode = ''DE''\<rparr>
   \<and> status newResponseWriter = None
   \<and> statusCode (snd (api_simulate_vpn offline
         (fst (api_block_countries offline initialGlobals newResponseWriter
            (postRequest (Some (JObject [(''countries'', JArray [JString ''de''])])))))
         newResponseWriter
         (postRequest (Some (JObject [(''country_code'', JString ''DE'')]))))) = 200
   \<and> DecodeBlockingRequest (Body (postRequest (Some (JObject [(''countries'', JArray [JString ''DE''])]))))
        = Inr \<lparr>Countries = [''DE'']\<rparr>
   \<and> \<not> contains (blockedCountriesList (fst (api_block_countries offline initialGlobals newResponseWriter
        (postRequest (Some (JObject [(''countries'', JArray [JString ''DE''])])))))) ''de''"
proof -
  let ?r = "postRequest (Some (JObject [(''countries'', JArray [JString ''de''])]))"
  let ?R = "postRequest (Some (JObject [(''countries'', JArray [JString ''DE''])]))"
  have M: "Method ?R = ''POST''" by (simp add: postRequest_def)
  have D: "DecodeBlockingRequest (Body ?R) = Inr \<lparr>Countries = [''DE'']\<rparr>"
    by (simp add: postRequest_def decode_countries_single)
  note T = block_list_case_sensitive[OF M D refl, of offline initialGlobals newResponseWriter]
  let ?r' = "postRequest (Some (JObject [(''country_code'', JString ''DE'')]))"
  have m: "Method ?r = ''POST''" by (simp add: postRequest_def)
  have d: "DecodeBlockingRequest (Body ?r) = Inr \<lparr>Countries = [''de'']\<rparr>"
    by (simp add: postRequest_def decode_countries_single)
  have m': "Method ?r' = ''POST''" by (simp add: postRequest_def)
  have d': "DecodeVPNSimulationRequest (Body ?r') = Inr \<lparr>CountryCode = ''DE''\<rparr>"
    by (simp add: postRequest_def decode_country_code)
  have s: "status newResponseWriter = None" by (simp add: newResponseWriter_def)
  note t = block_list_case_sensitive[OF m d refl, of offline initialGlobals newResponseWriter]
  have u: "ToUpper ''de'' \<noteq> ''de''" by (simp add: ToUpper_de)
  from t have 1: "blockedCountriesList (fst (api_block_countries offline initialGlobals newResponseWriter ?r)) = [''de'']"
    by simp
  from t[THEN conjunct2, THEN conjunct2, THEN conjunct1, rule_format, of "''de''"] u
  have 2: "\<not> contains (blockedCountriesList (fst (api_block_countries offline initialGlobals newResponseWriter ?r))) ''DE''"
    by (simp add: ToUpper_de)
  from t[THEN conjunct2, THEN conjunct2, THEN conjunct2, THEN conjunct2, rule_format,
         of "''de''" ?r' "\<lparr>CountryCode = ''DE''\<rparr>" newResponseWriter] u m' d' s
  have 3: "statusCode (snd (api_simulate_vpn offline
         (fst (api_block_countries offline initialGlobals newResponseWriter ?r))
         newResponseWriter ?r')) = 200"
    by (simp add: ToUpper_de)
  from T[THEN conjunct2, THEN conjunct2, THEN conjunct2, THEN conjunct1, rule_format, of "''de''"] u
  have 4: "\<not> contains (blockedCountriesList (fst (api_block_countries offline initialGlobals newResponseWriter ?R))) ''de''"
    by (simp add: ToUpper_de)
  from m d 1 2 m' d' s 3 D 4 show ?thesis by (simp add: ToUpper_de)
qed

section \<open>The access decision gate\<close>

lemma handleTestAccess_status:
  "status w = None \<Longrightarrow> statusCode (snd (handleTestAccess wd g w r)) = 200"
  by (simp add: handleTestAccess_def Let_def writer_defs)

lemma gate_status_iff:
  assumes "status w = None" and "gateCountry wd r = (clientIP, actualIP, code)"
  shows "statusCode (snd (countryBlockingMiddleware handleTestAccess wd g w r)) =
           (if contains (blockedCountriesList g) code then 403 else 200)"
  using assms
  by (simp add: countryBlockingMiddleware_def Let_def writer_defs handleTestAccess_def)

text \<open>
  Claim C1, as the code has it. Let \<open>code\<close> be the country the geo resolver returns
  for the extracted client address, or \<open>UNKNOWN\<close> when the resolver returns an error.
  If \<open>code\<close> is in the block list, the gate answers 403, its body carries \<open>code\<close> as
  \<open>country_code\<close> and the clock reading in RFC 3339 layout as \<open>blocked_at\<close>, the block
  list is untouched and the outcome is the same whatever the protected handler is: it
  is not invoked. If \<open>code\<close> is not in the block list, the protected handler runs and
  the access-test endpoint answers 200. A failed resolution is decided as \<open>UNKNOWN\<close>
  and never produces a status other than these two.
\<close>

theorem gate_decision:
  assumes "status w = None"
    and "code = (case getCountryFromIPAddress wd (getRealIP r) of
                   (c, err) \<Rightarrow> if err = None then c else ''UNKNOWN'')"
  shows "(contains (blockedCountriesList g) code \<longrightarrow>
            (\<forall>next. statusCode (snd (countryBlockingMiddleware next wd g w r)) = 403
               \<and> fst (countryBlockingMiddleware next wd g w r) = g
               \<and> (\<exists>body. written (snd (countryBlockingMiddleware next wd g w r))
                             = written w @ [MapBody body]
                     \<and> map_of body ''country_code'' = Some (VString code)
                     \<and> map_of body ''blocked_at'' = Some (VString (Format_RFC3339 (Now wd 0))))
               \<and> countryBlockingMiddleware next wd g w r
                   = countryBlockingMiddleware handleTestAccess wd g w r))
       \<and> (\<not> contains (blockedCountriesList g) code \<longrightarrow>
            statusCode (snd (countryBlockingMiddleware handleTestAccess wd g w r)) = 200
          \<and> fst (countryBlockingMiddleware handleTestAccess wd g w r) = g)
       \<and> (snd (getCountryFromIPAddress wd (getRealIP r)) \<noteq> None \<longrightarrow> code = ''UNKNOWN'')"
proof -
  obtain actualIP where gc: "gateCountry wd r = (getRealIP r, actualIP, code)"
    by (simp add: gateCountry_eq assms(2))
  have deny: "contains (blockedCountriesList g) code \<longrightarrow>
            (\<forall>next. statusCode (snd (countryBlockingMiddleware next wd g w r)) = 403
               \<and> fst (countryBlockingMiddleware next wd g w r) = g
               \<and> (\<exists>body. written (snd (countryBlockingMiddleware next wd g w r))
                             = written w @ [MapBody body]
                     \<and> map_of body ''country_code'' = Some (VString code)
                     \<and> map_of body ''blocked_at'' = Some (VString (Format_RFC3339 (Now wd 0))))
               \<and> countryBlockingMiddleware next wd g w r
                   = countryBlockingMiddleware handleTestAccess wd g w r)"
    using assms(1) by (simp add: countryBlockingMiddleware_def gc Let_def writer_defs)
  have allow: "\<not> contains (blockedCountriesList g) code \<longrightarrow>
            statusCode (snd (countryBlockingMiddleware handleTestAccess wd g w r)) = 200
          \<and> fst (countryBlockingMiddleware handleTestAccess wd g w r) = g"
    using assms(1)
    by (simp add: countryBlockingMiddleware_def gc Let_def handleTestAccess_status cors_status)
       (simp add: handleTestAccess_def Let_def)
  have unknown: "snd (getCountryFromIPAddress wd (getRealIP r)) \<noteq> None \<longrightarrow> code = ''UNKNOWN''"
    by (cases "getCountryFromIPAddress wd (getRealIP r)") (auto simp: assms(2))
  from deny allow unknown show ?thesis by blast
qed

text \<open>
  The claim as stated promises a 200 whenever resolution fails. With \<open>UNKNOWN\<close> in the
  block list a failed resolution is answered 403.
\<close>

theorem unknown_country_blocked:
  "getRealIP (getRequest Map.empty ''203.0.113.7:4711'') = ''203.0.113.7''
   \<and> getCountryFromIPAddress offline ''203.0.113.7''
        = ([], Some (FailedToGetCountry ''203.0.113.7''))
   \<and> statusCode (snd (countryBlockingMiddleware handleTestAccess offline
        \<lparr>blockedCountriesList = [''UNKNOWN'']\<rparr> newResponseWriter
        (getRequest Map.empty ''203.0.113.7:4711''))) = 403"
  by (simp add: getRealIP_peer_203 offline_country public_203 countryBlockingMiddleware_def
        gateCountry_eq Let_def writer_defs newResponseWriter_def)

theorem gate_decision_witness:
  "status newResponseWriter = None
   \<and> getCountryFromIPAddress (ipinfoWorld ''203.0.113.7'' ''DE'')
        (getRealIP (getRequest Map.empty ''203.0.113.7:4711'')) = (''DE'', None)
   \<and> contains (blockedCountriesList \<lparr>blockedCountriesList = [''DE'']\<rparr>) ''DE''
   \<and> statusCode (snd (countryBlockingMiddleware handleTestAccess (ipinfoWorld ''203.0.113.7'' ''DE'')
        \<lparr>blockedCountriesList = [''DE'']\<rparr> newResponseWriter
        (getRequest Map.empty ''203.0.113.7:4711''))) = 403
   \<and> \<not> contains (blockedCountriesList \<lparr>blockedCountriesList = [''RU'']\<rparr>) ''DE''
   \<and> statusCode (snd (countryBlockingMiddleware handleTestAccess (ipinfoWorld ''203.0.113.7'' ''DE'')
        \<lparr>blockedCountriesList = [''RU'']\<rparr> newResponseWriter
        (getRequest Map.empty ''203.0.113.7:4711''))) = 200
   \<and> snd (getCountryFromIPAddress offline (getRealIP (getRequest Map.empty ''203.0.113.7:4711'')))
        \<noteq> None
   \<and> statusCode (snd (countryBlockingMiddleware handleTestAccess offline
        \<lparr>blockedCountriesList = [''DE'']\<rparr> newResponseWriter
        (getRequest Map.empty ''203.0.113.7:4711''))) = 200"
proof -
  let ?r = "getRequest Map.empty ''203.0.113.7:4711''"
  let ?wd = "ipinfoWorld ''203.0.113.7'' ''DE''"
  have s: "status newResponseWriter = None" by (simp add: newResponseWriter_def)
  have c: "getCountryFromIPAddress ?wd (getRealIP ?r) = (''DE'', None)"
    by (simp add: getRealIP_peer_203 ipinfoWorld_country public_203)
  have o: "getCountryFromIPAddress offline (getRealIP ?r) = ([], Some (FailedToGetCountry ''203.0.113.7''))"
    by (simp add: getRealIP_peer_203 offline_country public_203)
  from gate_decision[OF s refl, of "\<lparr>blockedCountriesList = [''DE'']\<rparr>" ?wd ?r]
  have 1: "statusCode (snd (countryBlockingMiddleware handleTestAccess ?wd
        \<lparr>blockedCountriesList = [''DE'']\<rparr> newResponseWriter ?r)) = 403"
    by (simp add: c)
  from gate_decision[OF s refl, of "\<lparr>blockedCountriesList = [''RU'']\<rparr>" ?wd ?r]
  have 2: "statusCode (snd (countryBlockingMiddleware handleTestAccess ?wd
        \<lparr>blockedCountriesList = [''RU'']\<rparr> newResponseWriter ?r)) = 200"
    by (simp add: c)
  from gate_decision[OF s refl, of "\<lparr>blockedCountriesList = [''DE'']\<rparr>" offline ?r]
  have 3: "statusCode (snd (countryBlockingMiddleware handleTestAccess offline
        \<lparr>blockedCountriesList = [''DE'']\<rparr> newResponseWriter ?r)) = 200"
    by (simp add: o)
  from s c o 1 2 3 show ?thesis by simp
qed

section \<open>Country codes from providers\<close>

text \<open>
  Claim C6, as the code has it. A country code that \<open>ipinfo.io\<close> returns is used as
  it was received: the resolver returns the decoded \<open>country\<close> string itself, for a
  public address and in public-IP discovery alike, the gate decides on that string,
  and the access-test response reports it. No upper-casing takes place.
\<close>

theorem provider_country_verbatim:
  assumes "StatusCode resp = 200" and "DecodePublicIPInfo (RespBody resp) = Inr info"
    and "Country info \<noteq> []" and "status w = None"
  shows "(\<not> isPrivateIP ip \<and> GetJSON wd (''https://ipinfo.io/'' @ ip @ ''/json'') = Some resp \<longrightarrow>
            getCountryFromIPAddress wd ip = (Country info, None)
          \<and> (getRealIP r = ip \<longrightarrow>
                gateCountry wd r = (ip, ip, Country info)
              \<and> statusCode (snd (countryBlockingMiddleware handleTestAccess wd g w r))
                   = (if contains (blockedCountriesList g) (Country info) then 403 else 200)
              \<and> (\<exists>body. written (snd (handleTestAccess wd g w r)) = written w @ [MapBody body]
                    \<and> map_of body ''country_code'' = Some (VString (Country info)))))
       \<and> (GetJSON wd ''https://ipinfo.io/json'' = Some resp \<and> IP info \<noteq> [] \<and> \<not> isPrivateIP (IP info) \<longrightarrow>
            getRealPublicIPAndCountry wd = (IP info, Country info, None)
          \<and> (isPrivateIP ip \<longrightarrow> getCountryFromIPAddress wd ip = (Country info, None)))"
proof -
  have pub: "getCountryFromIPAddress wd ip = (Country info, None)"
    if "\<not> isPrivateIP ip" "GetJSON wd (''https://ipinfo.io/'' @ ip @ ''/json'') = Some resp"
    using that assms(1-3) by (simp add: getCountryFromIPAddress.simps)
  have 1: "\<not> isPrivateIP ip \<and> GetJSON wd (''https://ipinfo.io/'' @ ip @ ''/json'') = Some resp \<longrightarrow>
            getCountryFromIPAddress wd ip = (Country info, None)
          \<and> (getRealIP r = ip \<longrightarrow>
                gateCountry wd r = (ip, ip, Country info)
              \<and> statusCode (snd (countryBlockingMiddleware handleTestAccess wd g w r))
                   = (if contains (blockedCountriesList g) (Country info) then 403 else 200)
              \<and> (\<exists>body. written (snd (handleTestAccess wd g w r)) = written w @ [MapBody body]
                    \<and> map_of body ''country_code'' = Some (VString (Country info))))"
  proof (intro impI conjI)
    assume a: "\<not> isPrivateIP ip \<and> GetJSON wd (''https://ipinfo.io/'' @ ip @ ''/json'') = Some resp"
    then show c: "getCountryFromIPAddress wd ip = (Country info, None)" using pub by simp
    assume e: "getRealIP r = ip"
    show gc: "gateCountry wd r = (ip, ip, Country info)"
      using a e c by (simp add: gateCountry_eq)
    show "statusCode (snd (countryBlockingMiddleware handleTestAccess wd g w r))
            = (if contains (blockedCountriesList g) (Country info) then 403 else 200)"
      by (rule gate_status_iff[OF assms(4) gc])
    show "\<exists>body. written (snd (handleTestAccess wd g w r)) = written w @ [MapBody body]
            \<and> map_of body ''country_code'' = Some (VString (Country info))"
      using e c by (simp add: handleTestAccess_def Let_def writer_defs)
  qed
  have 2: "GetJSON wd ''https://ipinfo.io/json'' = Some resp \<and> IP info \<noteq> [] \<and> \<not> isPrivateIP (IP info) \<longrightarrow>
            getRealPublicIPAndCountry wd = (IP info, Country info, None)
          \<and> (isPrivateIP ip \<longrightarrow> getCountryFromIPAddress wd ip = (Country info, None))"
  proof (intro impI conjI)
    assume a: "GetJSON wd ''https://ipinfo.io/json'' = Some resp \<and> IP info \<noteq> [] \<and> \<not> isPrivateIP (IP info)"
    then show d: "getRealPublicIPAndCountry wd = (IP info, Country info, None)"
      using assms(1-3) by (simp add: getRealPublicIPAndCountry.simps)
    assume "isPrivateIP ip"
    then show "getCountryFromIPAddress wd ip = (Country info, None)"
      using d a assms(3) by (simp add: getCountryFromIPAddress.simps[of wd ip])
  qed
  from 1 2 show ?thesis by blast
qed

text \<open>
  The claim as stated says that provider codes are upper-cased. When the provider
  answers \<open>de\<close>, the resolver returns \<open>de\<close>, and a block list holding \<open>DE\<close> does not
  block the request.
\<close>

theorem lower_case_country_not_upper_cased:
  "getCountryFromIPAddress (ipinfoWorld ''203.0.113.7'' ''de'') ''203.0.113.7'' = (''de'', None)
   \<and> ToUpper ''de'' = ''DE''
   \<and> gateCountry (ipinfoWorld ''203.0.113.7'' ''de'') (getRequest Map.empty ''203.0.113.7:4711'')
        = (''203.0.113.7'', ''203.0.113.7'', ''de'')
   \<and> statusCode (snd (countryBlockingMiddleware handleTestAccess (ipinfoWorld ''203.0.113.7'' ''de'')
        \<lparr>blockedCountriesList = [''DE'']\<rparr> newResponseWriter
        (getRequest Map.empty ''203.0.113.7:4711''))) = 200"
proof -
  have c: "getCountryFromIPAddress (ipinfoWorld ''203.0.113.7'' ''de'') ''203.0.113.7'' = (''de'', None)"
    by (simp add: ipinfoWorld_country public_203)
  have g: "gateCountry (ipinfoWorld ''203.0.113.7'' ''de'') (getRequest Map.empty ''203.0.113.7:4711'')
        = (''203.0.113.7'', ''203.0.113.7'', ''de'')"
    by (simp add: gateCountry_eq getRealIP_peer_203 public_203 c)
  have s: "status newResponseWriter = None" by (simp add: newResponseWriter_def)
  from gate_status_iff[OF s g, of "\<lparr>blockedCountriesList = [''DE'']\<rparr>"] c g ToUpper_de
  show ?thesis by simp
qed

theorem provider_country_verbatim_witness:
  "StatusCode \<lparr>StatusCode = 200, RespBody = Some (JObject [(''ip'', JString ''203.0.113.7''),
       (''country'', JString ''de'')])\<rparr> = 200
   \<and> DecodePublicIPInfo (RespBody \<lparr>StatusCode = 200, RespBody = Some (JObject [(''ip'', JString ''203.0.113.7''),
       (''country'', JString ''de'')])\<rparr>)
      = Inr \<lparr>IP = ''203.0.113.7'', City = [], Region = [], Country = ''de'', Loc = [], Org = [],
            Timezone = []\<rparr>
   \<and> \<not> isPrivateIP ''203.0.113.7''
   \<and> GetJSON (ipinfoWorld ''203.0.113.7'' ''de'') (''https://ipinfo.io/'' @ ''203.0.113.7'' @ ''/json'')
      = Some \<lparr>StatusCode = 200, RespBody = Some (JObject [(''ip'', JString ''203.0.113.7''),
       (''country'', JString ''de'')])\<rparr>
   \<and> GetJSON (ipinfoWorld ''203.0.113.7'' ''de'') ''https://ipinfo.io/json''
      = Some \<lparr>StatusCode = 200, RespBody = Some (JObject [(''ip'', JString ''203.0.113.7''),
       (''country'', JString ''de'')])\<rparr>
   \<and> isPrivateIP ''127.0.0.1''
   \<and> getCountryFromIPAddress (ipinfoWorld ''203.0.113.7'' ''de'') ''203.0.113.7'' = (''de'', None)
   \<and> getRealPublicIPAndCountry (ipinfoWorld ''203.0.113.7'' ''de'') = (''203.0.113.7'', ''de'', None)"
proof -
  let ?resp = "\<lparr>StatusCode = 200, RespBody = Some (JObject [(''ip'', JString ''203.0.113.7''),
       (''country'', JString ''de'')])\<rparr>"
  let ?info = "\<lparr>IP = ''203.0.113.7'', City = [], Region = [], Country = ''de'', Loc = [], Org = [],
            Timezone = []\<rparr>"
  have a1: "StatusCode ?resp = 200" by simp
  have a2: "DecodePublicIPInfo (RespBody ?resp) = Inr ?info" by (simp add: decode_ipinfo_answer)
  have a3: "Country ?info \<noteq> []" by simp
  have a4: "status newResponseWriter = None" by (simp add: newResponseWriter_def)
  have j1: "GetJSON (ipinfoWorld ''203.0.113.7'' ''de'') (''https://ipinfo.io/'' @ ''203.0.113.7'' @ ''/json'') = Some ?resp"
    by (simp add: ipinfoWorld_def)
  have j2: "GetJSON (ipinfoWorld ''203.0.113.7'' ''de'') ''https://ipinfo.io/json'' = Some ?resp"
    by (simp add: ipinfoWorld_def)
  note t = provider_country_verbatim[OF a1 a2 a3 a4,
      of "''203.0.113.7''" "ipinfoWorld ''203.0.113.7'' ''de''"]
  from t j1 public_203
  have 1: "getCountryFromIPAddress (ipinfoWorld ''203.0.113.7'' ''de'') ''203.0.113.7'' = (''de'', None)"
    by simp
  from t j2 public_203
  have 2: "getRealPublicIPAndCountry (ipinfoWorld ''203.0.113.7'' ''de'') = (''203.0.113.7'', ''de'', None)"
    by simp
  from a1 a2 j1 j2 1 2 public_203 private_loopback show ?thesis by simp
qed

section \<open>Private and loopback addresses\<close>

lemma getRealIP_peer_link_local:
  "getRealIP (getRequest Map.empty ''169.254.1.1:4711'') = ''169.254.1.1''"
  by (simp add: getRealIP_def getRequest_def Header_Get_def Let_def substring_def TrimSpace_empty)

lemma unclassified_addresses:
  "\<not> isPrivateIP ''0:0:0:0:0:0:0:1''" "\<not> isPrivateIP ''::ffff:127.0.0.1''"
  "\<not> isPrivateIP ''169.254.1.1''"
  by (simp_all add: isPrivateIP_def)

lemma gate_deny_body:
  assumes "status w = None" and "gateCountry wd r = (clientIP, actualIP, code)"
    and "contains (blockedCountriesList g) code"
  shows "written (snd (countryBlockingMiddleware next wd g w r)) =
           written w @
           [MapBody
              [(''error'', VString ''Country Blocked''),
               (''message'', VString (''Access denied: Your country ('' @ code
                                      @ '') has been blocked'')),
               (''country_code'', VString code),
               (''client_ip'', VString actualIP),
               (''detected_via'', VString clientIP),
               (''blocked_at'', VString (Format_RFC3339 (Now wd 0))),
               (''reason'', VString ''Geo-blocking policy in effect'')]]"
  using assms by (simp add: countryBlockingMiddleware_def writer_defs)

lemma gate_allow_next:
  assumes "gateCountry wd r = (clientIP, actualIP, code)"
    and "\<not> contains (blockedCountriesList g) code"
  shows "countryBlockingMiddleware next wd g w r =
           next wd g (Header_Set (Header_Set w ''X-Client-Country'' code) ''X-Client-IP'' clientIP) r"
  using assms by (simp add: countryBlockingMiddleware_def Let_def)

text \<open>
  Claim C4, as the code has it. The statement is about the addresses the code
  classifies as private, that is, those \<open>isPrivateIP\<close> accepts. Public-IP discovery
  returns either an error, with no address and no country, or a non-empty address
  that \<open>isPrivateIP\<close> rejects, hence never an input classified as private; its
  country may be empty. For an input classified as private the resolver returns a
  country only together with such an address. The gate takes as actual IP the
  discovered address when the client address is classified as private and discovery
  succeeds, and the client address itself when discovery fails or when the client
  address is not classified as private; the latter holds for private and loopback
  forms the prefix test does not know, such as \<open>0:0:0:0:0:0:0:1\<close>,
  \<open>::ffff:127.0.0.1\<close> and \<open>169.254.1.1\<close>. A 403 sends the actual IP as
  \<open>client_ip\<close> and the client address as \<open>detected_via\<close>; on the allow path the
  gate hands the request on with the client address in the header \<open>X-Client-IP\<close>
  and sends no actual IP.
\<close>

theorem private_address_resolution:
  assumes "gateCountry wd r = (clientIP, actualIP, code)" and "status w = None"
  shows "(\<forall>ip c. getRealPublicIPAndCountry wd = (ip, c, None) \<longrightarrow>
            ip \<noteq> [] \<and> \<not> isPrivateIP ip \<and> (\<forall>p. isPrivateIP p \<longrightarrow> ip \<noteq> p))
       \<and> (\<forall>ip c e. getRealPublicIPAndCountry wd = (ip, c, Some e) \<longrightarrow> ip = [] \<and> c = [])
       \<and> (\<forall>p c. isPrivateIP p \<and> getCountryFromIPAddress wd p = (c, None) \<longrightarrow>
            c \<noteq> [] \<and> (\<exists>ip. getRealPublicIPAndCountry wd = (ip, c, None)
                          \<and> \<not> isPrivateIP ip \<and> ip \<noteq> p))
       \<and> clientIP = getRealIP r
       \<and> (isPrivateIP clientIP \<and> snd (snd (getRealPublicIPAndCountry wd)) = None \<longrightarrow>
            actualIP = fst (getRealPublicIPAndCountry wd)
          \<and> \<not> isPrivateIP actualIP \<and> actualIP \<noteq> clientIP)
       \<and> (isPrivateIP clientIP \<and> snd (snd (getRealPublicIPAndCountry wd)) \<noteq> None \<longrightarrow>
            actualIP = clientIP)
       \<and> (\<not> isPrivateIP clientIP \<longrightarrow> actualIP = clientIP)
       \<and> (contains (blockedCountriesList g) code \<longrightarrow>
            (\<forall>next. \<exists>body.
               written (snd (countryBlockingMiddleware next wd g w r)) = written w @ [MapBody body]
             \<and> map_of body ''client_ip'' = Some (VString actualIP)
             \<and> map_of body ''detected_via'' = Some (VString clientIP)))
       \<and> (\<not> contains (blockedCountriesList g) code \<longrightarrow>
            (\<forall>next. countryBlockingMiddleware next wd g w r =
               next wd g
                 (Header_Set (Header_Set w ''X-Client-Country'' code) ''X-Client-IP'' clientIP) r))
       \<and> \<not> isPrivateIP ''0:0:0:0:0:0:0:1'' \<and> \<not> isPrivateIP ''::ffff:127.0.0.1''
       \<and> \<not> isPrivateIP ''169.254.1.1''"
proof -
  have 1: "\<forall>ip c. getRealPublicIPAndCountry wd = (ip, c, None) \<longrightarrow>
            ip \<noteq> [] \<and> \<not> isPrivateIP ip \<and> (\<forall>p. isPrivateIP p \<longrightarrow> ip \<noteq> p)"
  proof (intro allI impI)
    fix ip c
    assume "getRealPublicIPAndCountry wd = (ip, c, None)"
    from getRealPublicIPAndCountry_result[OF this]
    have "ip \<noteq> [] \<and> \<not> isPrivateIP ip" by simp
    then show "ip \<noteq> [] \<and> \<not> isPrivateIP ip \<and> (\<forall>p. isPrivateIP p \<longrightarrow> ip \<noteq> p)" by auto
  qed
  have 2: "\<forall>ip c e. getRealPublicIPAndCountry wd = (ip, c, Some e) \<longrightarrow> ip = [] \<and> c = []"
  proof (intro allI impI)
    fix ip c e
    assume "getRealPublicIPAndCountry wd = (ip, c, Some e)"
    from getRealPublicIPAndCountry_result[OF this]
    show "ip = [] \<and> c = []" by simp
  qed
  have 3: "\<forall>p c. isPrivateIP p \<and> getCountryFromIPAddress wd p = (c, None) \<longrightarrow>
            c \<noteq> [] \<and> (\<exists>ip. getRealPublicIPAndCountry wd = (ip, c, None)
                          \<and> \<not> isPrivateIP ip \<and> ip \<noteq> p)"
  proof (intro allI impI)
    fix p c
    assume a: "isPrivateIP p \<and> getCountryFromIPAddress wd p = (c, None)"
    obtain ip c' e where d: "getRealPublicIPAndCountry wd = (ip, c', e)"
      by (cases "getRealPublicIPAndCountry wd") auto
    from a d have e: "e = None \<and> c' = c \<and> c \<noteq> []"
      by (simp add: getCountryFromIPAddress.simps[of wd p] split: if_splits)
    with d have d': "getRealPublicIPAndCountry wd = (ip, c, None)" by simp
    from getRealPublicIPAndCountry_result[OF d'] have "\<not> isPrivateIP ip" by simp
    moreover from this a have "ip \<noteq> p" by auto
    ultimately show "c \<noteq> [] \<and> (\<exists>ip. getRealPublicIPAndCountry wd = (ip, c, None)
                          \<and> \<not> isPrivateIP ip \<and> ip \<noteq> p)"
      using e d' by (intro conjI exI[of _ ip]) simp_all
  qed
  obtain ip c e where d: "getRealPublicIPAndCountry wd = (ip, c, e)"
    by (cases "getRealPublicIPAndCountry wd") auto
  have cl: "clientIP = getRealIP r"
    and a0: "actualIP =
      (if isPrivateIP (getRealIP r) then
         (case getRealPublicIPAndCountry wd of
            (realIP, realCountry, err) \<Rightarrow> if err = None then realIP else getRealIP r)
       else getRealIP r)"
    using assms(1) unfolding gateCountry_eq by auto
  have act: "actualIP = (if isPrivateIP clientIP \<and> e = None then ip else clientIP)"
    unfolding a0 cl d by simp
  have pub: "e = None \<Longrightarrow> \<not> isPrivateIP ip"
    using getRealPublicIPAndCountry_result[OF d] by simp
  have 5: "isPrivateIP clientIP \<and> snd (snd (getRealPublicIPAndCountry wd)) = None \<longrightarrow>
            actualIP = fst (getRealPublicIPAndCountry wd)
          \<and> \<not> isPrivateIP actualIP \<and> actualIP \<noteq> clientIP"
  proof
    assume a: "isPrivateIP clientIP \<and> snd (snd (getRealPublicIPAndCountry wd)) = None"
    then have "e = None" using d by simp
    with a act pub have "actualIP = ip" and "\<not> isPrivateIP ip" by simp_all
    moreover from this a have "ip \<noteq> clientIP" by auto
    ultimately show "actualIP = fst (getRealPublicIPAndCountry wd)
          \<and> \<not> isPrivateIP actualIP \<and> actualIP \<noteq> clientIP"
      using d by simp
  qed
  have 6: "isPrivateIP clientIP \<and> snd (snd (getRealPublicIPAndCountry wd)) \<noteq> None \<longrightarrow>
            actualIP = clientIP"
    using act d by simp
  have 7: "\<not> isPrivateIP clientIP \<longrightarrow> actualIP = clientIP"
    using act by simp
  have 8: "contains (blockedCountriesList g) code \<longrightarrow>
            (\<forall>next. \<exists>body.
               written (snd (countryBlockingMiddleware next wd g w r)) = written w @ [MapBody body]
             \<and> map_of body ''client_ip'' = Some (VString actualIP)
             \<and> map_of body ''detected_via'' = Some (VString clientIP))"
  proof (intro impI allI)
    fix "next"
    assume "contains (blockedCountriesList g) code"
    from gate_deny_body[OF assms(2) assms(1) this, of "next"]
    show "\<exists>body.
               written (snd (countryBlockingMiddleware next wd g w r)) = written w @ [MapBody body]
             \<and> map_of body ''client_ip'' = Some (VString actualIP)
             \<and> map_of body ''detected_via'' = Some (VString clientIP)"
      by simp
  qed
  have 9: "\<not> contains (blockedCountriesList g) code \<longrightarrow>
            (\<forall>next. countryBlockingMiddleware next wd g w r =
               next wd g
                 (Header_Set (Header_Set w ''X-Client-Country'' code) ''X-Client-IP'' clientIP) r)"
    using gate_allow_next[OF assms(1)] by simp
  show ?thesis
    using 1 2 3 cl 5 6 7 8 9 unclassified_addresses by (intro conjI) assumption+
qed

text \<open>
  The claim as stated says that the gate never presents the private input address
  as the actual IP. When every provider fails, a request from 127.0.0.1 is decided
  with actual IP 127.0.0.1, and a rejection reports it as \<open>client_ip\<close>.
\<close>

theorem private_address_presented:
  "isPrivateIP ''127.0.0.1''
   \<and> getRealIP (getRequest Map.empty ''127.0.0.1:50000'') = ''127.0.0.1''
   \<and> gateCountry offline (getRequest Map.empty ''127.0.0.1:50000'')
        = (''127.0.0.1'', ''127.0.0.1'', ''UNKNOWN'')
   \<and> written (snd (countryBlockingMiddleware handleTestAccess offline
        \<lparr>blockedCountriesList = [''UNKNOWN'']\<rparr> newResponseWriter
        (getRequest Map.empty ''127.0.0.1:50000'')))
      = [MapBody
          [(''error'', VString ''Country Blocked''),
           (''message'', VString ''Access denied: Your country (UNKNOWN) has been blocked''),
           (''country_code'', VString ''UNKNOWN''),
           (''client_ip'', VString ''127.0.0.1''),
           (''detected_via'', VString ''127.0.0.1''),
           (''blocked_at'', VString ''1970-01-01T00:00:00Z''),
           (''reason'', VString ''Geo-blocking policy in effect'')]]"
proof -
  have g: "gateCountry offline (getRequest Map.empty ''127.0.0.1:50000'')
        = (''127.0.0.1'', ''127.0.0.1'', ''UNKNOWN'')"
    by (simp add: gateCountry_eq getRealIP_peer_loopback private_loopback offline_discovery
          offline_country_private)
  have n: "Format_RFC3339 (Now offline 0) = ''1970-01-01T00:00:00Z''"
    by (simp add: offline_def epoch_def)
  show ?thesis
    by (simp add: private_loopback getRealIP_peer_loopback g countryBlockingMiddleware_def
          Let_def writer_defs newResponseWriter_def n)
qed

theorem private_address_resolution_witness:
  "gateCountry (fallbackWorld ''203.0.113.7'' ''DE'') (getRequest Map.empty ''127.0.0.1:50000'')
        = (''127.0.0.1'', ''203.0.113.7'', ''DE'')
   \<and> status newResponseWriter = None
   \<and> isPrivateIP ''127.0.0.1''
   \<and> getRealPublicIPAndCountry (fallbackWorld ''203.0.113.7'' ''DE'') = (''203.0.113.7'', ''DE'', None)
   \<and> getCountryFromIPAddress (fallbackWorld ''203.0.113.7'' ''DE'') ''127.0.0.1'' = (''DE'', None)
   \<and> \<not> isPrivateIP ''203.0.113.7''
   \<and> contains (blockedCountriesList \<lparr>blockedCountriesList = [''DE'']\<rparr>) ''DE''
   \<and> (\<exists>body. written (snd (countryBlockingMiddleware handleTestAccess
          (fallbackWorld ''203.0.113.7'' ''DE'') \<lparr>blockedCountriesList = [''DE'']\<rparr>
          newResponseWriter (getRequest Map.empty ''127.0.0.1:50000''))) = [MapBody body]
        \<and> map_of body ''client_ip'' = Some (VString ''203.0.113.7'')
        \<and> map_of body ''detected_via'' = Some (VString ''127.0.0.1''))
   \<and> gateCountry offline (getRequest Map.empty ''127.0.0.1:50000'')
        = (''127.0.0.1'', ''127.0.0.1'', ''UNKNOWN'')
   \<and> getRealPublicIPAndCountry offline = ([], [], Some NoPublicIP)
   \<and> gateCountry offline (getRequest Map.empty ''169.254.1.1:4711'')
        = (''169.254.1.1'', ''169.254.1.1'', ''UNKNOWN'')
   \<and> \<not> isPrivateIP ''169.254.1.1''
   \<and> \<not> contains (blockedCountriesList \<lparr>blockedCountriesList = [''DE'']\<rparr>) ''UNKNOWN''
   \<and> header (snd (countryBlockingMiddleware (\<lambda>wd g w r. (g, w)) offline
          \<lparr>blockedCountriesList = [''DE'']\<rparr> newResponseWriter
          (getRequest Map.empty ''169.254.1.1:4711''))) ''X-Client-Ip'' = Some ''169.254.1.1''"
proof -
  let ?wd = "fallbackWorld ''203.0.113.7'' ''DE''"
  let ?r = "getRequest Map.empty ''127.0.0.1:50000''"
  let ?r' = "getRequest Map.empty ''169.254.1.1:4711''"
  let ?g = "\<lparr>blockedCountriesList = [''DE'']\<rparr>"
  have s: "status newResponseWriter = None" by (simp add: newResponseWriter_def)
  have c: "getCountryFromIPAddress ?wd ''127.0.0.1'' = (''DE'', None)"
    by (simp add: getCountryFromIPAddress.simps[of ?wd "''127.0.0.1''"] private_loopback
          fallbackWorld_discovery)
  have g: "gateCountry ?wd ?r = (''127.0.0.1'', ''203.0.113.7'', ''DE'')"
    by (simp add: gateCountry_eq getRealIP_peer_loopback private_loopback fallbackWorld_discovery c)
  have g': "gateCountry offline ?r = (''127.0.0.1'', ''127.0.0.1'', ''UNKNOWN'')"
    by (simp add: gateCountry_eq getRealIP_peer_loopback private_loopback offline_discovery
          offline_country_private)
  have g'': "gateCountry offline ?r' = (''169.254.1.1'', ''169.254.1.1'', ''UNKNOWN'')"
    by (simp add: gateCountry_eq getRealIP_peer_link_local unclassified_addresses offline_country)
  note t = private_address_resolution[OF g s, of ?g]
  note t'' = private_address_resolution[OF g'' s, of ?g]
  from t[THEN conjunct1, rule_format, of "''203.0.113.7''" "''DE''"]
  have 1: "\<not> isPrivateIP ''203.0.113.7''"
    by (simp add: fallbackWorld_discovery)
  from t[THEN conjunct2, THEN conjunct2, THEN conjunct2, THEN conjunct2, THEN conjunct2,
         THEN conjunct2, THEN conjunct2, THEN conjunct1]
  have 2: "\<exists>body. written (snd (countryBlockingMiddleware handleTestAccess ?wd ?g
          newResponseWriter ?r)) = [MapBody body]
        \<and> map_of body ''client_ip'' = Some (VString ''203.0.113.7'')
        \<and> map_of body ''detected_via'' = Some (VString ''127.0.0.1'')"
    by (simp add: newResponseWriter_def)
  have k: "CanonicalMIMEHeaderKey ''X-Client-IP'' = ''X-Client-Ip''"
    by (simp add: CanonicalMIMEHeaderKey_def upperChar_def lowerChar_def)
  from t''[THEN conjunct2, THEN conjunct2, THEN conjunct2, THEN conjunct2, THEN conjunct2,
         THEN conjunct2, THEN conjunct2, THEN conjunct2, THEN conjunct1]
  have 3: "header (snd (countryBlockingMiddleware (\<lambda>wd g w r. (g, w)) offline ?g
          newResponseWriter ?r')) ''X-Client-Ip'' = Some ''169.254.1.1''"
    by (simp add: Header_Set_def k)
  have b: "contains (blockedCountriesList ?g) ''DE''"
    and nb: "\<not> contains (blockedCountriesList ?g) ''UNKNOWN''"
    by simp_all
  show ?thesis
    by (intro conjI g s private_loopback fallbackWorld_discovery c 1 b 2 g' offline_discovery g''
          unclassified_addresses(3) nb 3)
qed

section \<open>Malformed requests\<close>

lemma handleBlockCountries_bad_request:
  assumes "Method r = ''POST''" and "DecodeBlockingRequest (Body r) = Inl e"
  shows "handleBlockCountries wd g w r = (g, Error w ''Invalid JSON'' StatusBadRequest)"
  using assms by (simp add: handleBlockCountries_def)

lemma handleSimulateVPN_bad_request:
  assumes "Method r = ''POST''"
    and "case DecodeVPNSimulationRequest (Body r) of Inl e \<Rightarrow> True | Inr req \<Rightarrow> CountryCode req = []"
    and "status w = None"
  shows "statusCode (snd (handleSimulateVPN wd g w r)) = 400"
  using assms by (auto simp: handleSimulateVPN_def Let_def writer_defs split: sum.splits)

text \<open>
  Claim C8, as the code has it. For a POST whose body cannot be decoded (no
  well-formed JSON value, or a value of the wrong JSON type), block-countries and
  simulate-vpn answer 400 and leave the block list as it was; simulate-vpn does the
  same when \<open>country_code\<close> is missing or empty. A body that is not JSON cannot be
  decoded, and an object without a \<open>country_code\<close> member decodes to the empty
  country code.
\<close>

theorem malformed_body_rejected:
  assumes "Method r = ''POST''" and "status w = None"
  shows "((\<exists>e. DecodeBlockingRequest (Body r) = Inl e) \<longrightarrow>
            statusCode (snd (api_block_countries wd g w r)) = 400
          \<and> fst (api_block_countries wd g w r) = g)
       \<and> ((case DecodeVPNSimulationRequest (Body r) of
              Inl e \<Rightarrow> True
            | Inr req \<Rightarrow> CountryCode req = []) \<longrightarrow>
            statusCode (snd (api_simulate_vpn wd g w r)) = 400
          \<and> fst (api_simulate_vpn wd g w r) = g)
       \<and> (Body r = None \<longrightarrow>
            (\<exists>e. DecodeBlockingRequest (Body r) = Inl e)
          \<and> (\<exists>e. DecodeVPNSimulationRequest (Body r) = Inl e))
       \<and> (\<forall>kvs. Body r = Some (JObject kvs) \<and> (\<forall>(k, v) \<in> set kvs. foldName k \<noteq> ''country_code'') \<longrightarrow>
            DecodeVPNSimulationRequest (Body r) = Inr \<lparr>CountryCode = []\<rparr>)"
proof -
  let ?w = "Header_Set
          (Header_Set (Header_Set w ''Access-Control-Allow-Origin'' ''*'')
             ''Access-Control-Allow-Methods'' ''GET, POST, PUT, DELETE, OPTIONS'')
          ''Access-Control-Allow-Headers'' ''Content-Type, Authorization''"
  have m: "Method r \<noteq> ''OPTIONS''" using assms(1) by simp
  have s: "status ?w = None" using assms(2) by (simp add: cors_status)
  have b: "api_block_countries wd g w r = handleBlockCountries wd g ?w r"
    by (simp add: api_block_countries_def enableCORS_passes[OF m])
  have v: "api_simulate_vpn wd g w r = handleSimulateVPN wd g ?w r"
    by (simp add: api_simulate_vpn_def enableCORS_passes[OF m])
  have 1: "(\<exists>e. DecodeBlockingRequest (Body r) = Inl e) \<longrightarrow>
            statusCode (snd (api_block_countries wd g w r)) = 400
          \<and> fst (api_block_countries wd g w r) = g"
    unfolding b using handleBlockCountries_bad_request[OF assms(1), of _ wd g] s
    by (auto simp: writer_defs)
  have 2: "(case DecodeVPNSimulationRequest (Body r) of
              Inl e \<Rightarrow> True
            | Inr req \<Rightarrow> CountryCode req = []) \<longrightarrow>
            statusCode (snd (api_simulate_vpn wd g w r)) = 400
          \<and> fst (api_simulate_vpn wd g w r) = g"
    unfolding v using handleSimulateVPN_bad_request[OF assms(1) _ s, of wd g]
    by (simp add: handleSimulateVPN_frame)
  have 3: "Body r = None \<longrightarrow>
            (\<exists>e. DecodeBlockingRequest (Body r) = Inl e)
          \<and> (\<exists>e. DecodeVPNSimulationRequest (Body r) = Inl e)"
    by (simp add: DecodeBlockingRequest_def DecodeVPNSimulationRequest_def
          decodeSliceStruct_def decodeStringStruct_def)
  have 4: "\<forall>kvs. Body r = Some (JObject kvs) \<and> (\<forall>(k, v) \<in> set kvs. foldName k \<noteq> ''country_code'') \<longrightarrow>
            DecodeVPNSimulationRequest (Body r) = Inr \<lparr>CountryCode = []\<rparr>"
  proof (intro allI impI)
    fix kvs
    assume a: "Body r = Some (JObject kvs) \<and> (\<forall>(k, v) \<in> set kvs. foldName k \<noteq> ''country_code'')"
    then have "\<forall>(k, v) \<in> set kvs. foldName k \<notin> set [''country_code'']" by auto
    from decodeStringFields_no_key[OF this, of "\<lambda>t. []"] a
    show "DecodeVPNSimulationRequest (Body r) = Inr \<lparr>CountryCode = []\<rparr>"
      by (simp add: DecodeVPNSimulationRequest_def decodeStringStruct_def)
  qed
  from 1 2 3 4 show ?thesis by blast
qed

text \<open>
  The claim as stated also asks for a 400 when the \<open>countries\<close> list is missing.
  \<open>handleBlockCountries\<close> has no such check: the body \<open>{}\<close> is answered with 200
  and empties the block list.
\<close>

theorem missing_countries_accepted:
  "Method (postRequest (Some (JObject []))) = ''POST''
   \<and> statusCode (snd (api_block_countries offline \<lparr>blockedCountriesList = [''DE'']\<rparr> newResponseWriter
        (postRequest (Some (JObject []))))) = 200
   \<and> fst (api_block_countries offline \<lparr>blockedCountriesList = [''DE'']\<rparr> newResponseWriter
        (postRequest (Some (JObject [])))) = \<lparr>blockedCountriesList = []\<rparr>"
  by (simp add: api_block_countries_def enableCORS_def handleBlockCountries_def postRequest_def
        DecodeBlockingRequest_def decodeSliceStruct_def sliceValue_def nilSlice_def
        newResponseWriter_def writer_defs Let_def)

theorem malformed_body_rejected_witness:
  "Method (postRequest None) = ''POST'' \<and> status newResponseWriter = None
   \<and> Body (postRequest None) = None
   \<and> statusCode (snd (api_block_countries offline \<lparr>blockedCountriesList = [''DE'']\<rparr> newResponseWriter
        (postRequest None))) = 400
   \<and> fst (api_block_countries offline \<lparr>blockedCountriesList = [''DE'']\<rparr> newResponseWriter
        (postRequest None)) = \<lparr>blockedCountriesList = [''DE'']\<rparr>
   \<and> statusCode (snd (api_simulate_vpn offline \<lparr>blockedCountriesList = [''DE'']\<rparr> newResponseWriter
        (postRequest None))) = 400
   \<and> Method (postRequest (Some (JObject [(''country'', JString ''DE'')]))) = ''POST''
   \<and> DecodeVPNSimulationRequest (Body (postRequest (Some (JObject [(''country'', JString ''DE'')]))))
        = Inr \<lparr>CountryCode = []\<rparr>
   \<and> statusCode (snd (api_simulate_vpn offline \<lparr>blockedCountriesList = [''DE'']\<rparr> newResponseWriter
        (postRequest (Some (JObject [(''country'', JString ''DE'')]))))) = 400
   \<and> fst (api_simulate_vpn offline \<lparr>blockedCountriesList = [''DE'']\<rparr> newResponseWriter
        (postRequest (Some (JObject [(''country'', JString ''DE'')])))) = \<lparr>blockedCountriesList = [''DE'']\<rparr>"
  using malformed_body_rejected
      [of "postRequest None" newResponseWriter offline "\<lparr>blockedCountriesList = [''DE'']\<rparr>"]
    malformed_body_rejected
      [of "postRequest (Some (JObject [(''country'', JString ''DE'')]))" newResponseWriter offline
          "\<lparr>blockedCountriesList = [''DE'']\<rparr>"]
  by (simp add: postRequest_def newResponseWriter_def lowerChar_def
        DecodeBlockingRequest_def DecodeVPNSimulationRequest_def decodeSliceStruct_def
        decodeStringStruct_def)

section \<open>Offline validation\<close>

lemma validateLoop_eq:
  "validateLoop blocked tests (rs, b, a) =
     (rs @ map (\<lambda>country.
         \<lparr>T_Country = country, T_Blocked = contains blocked country,
          T_Status = getStatusMessage (contains blocked country),
          T_ResponseTime = 50 + int (length country) * 10\<rparr>) tests,
      b + int (length (filter (contains blocked) tests)),
      a + int (length (filter (\<lambda>c. \<not> contains blocked c) tests)))"
  by (induction tests arbitrary: rs b a) (simp_all add: Let_def)

lemma filter_partition_length:
  "int (length (filter P xs)) + int (length (filter (\<lambda>x. \<not> P x) xs)) = int (length xs)"
  using sum_length_filter_compl[of P xs] by linarith

lemma handleValidateBlocking_frame: "fst (handleValidateBlocking wd g w r) = g"
  by (simp add: handleValidateBlocking_def Let_def split: sum.splits prod.splits)

lemma handleValidateBlocking_written:
  assumes "Method r = ''POST''" and "DecodeValidationRequest (Body r) = Inr req"
  shows "written (snd (handleValidateBlocking wd g w r)) =
     written w @ [ValidationBody
       \<lparr>TestResults = map (\<lambda>country.
         \<lparr>T_Country = country, T_Blocked = contains (BlockedCountries req) country,
          T_Status = getStatusMessage (contains (BlockedCountries req) country),
          T_ResponseTime = 50 + int (length country) * 10\<rparr>) (TestCountries req),
        Summary = \<lparr>BlockedCount = int (length (filter (contains (BlockedCountries req)) (TestCountries req))),
                   AllowedCount = int (length (filter (\<lambda>c. \<not> contains (BlockedCountries req) c) (TestCountries req))),
                   TotalTests = int (length (TestCountries req))\<rparr>\<rparr>]"
  using assms
  by (simp add: handleValidateBlocking_def validateLoop_eq Let_def writer_defs)

text \<open>
  Claim C9. A validate-blocking request never changes the live block list. When it is
  a POST whose body decodes, the response lists the test countries in order, reports
  each one blocked exactly when it is a member of the request's own
  \<open>blocked_countries\<close>, and its counts partition the tests: \<open>blocked_count +
  allowed_count = total_tests\<close>. With \<open>blocked_countries\<close> RU, CN and
  \<open>test_countries\<close> RU, US the counts are 1 and 1.
\<close>

theorem validate_blocking_offline:
  "fst (api_validate_blocking wd g w r) = g
   \<and> (Method r = ''POST'' \<and> DecodeValidationRequest (Body r) = Inr req \<longrightarrow>
       (\<exists>resp. written (snd (api_validate_blocking wd g w r)) = written w @ [ValidationBody resp]
          \<and> map T_Country (TestResults resp) = TestCountries req
          \<and> (\<forall>t \<in> set (TestResults resp).
                T_Blocked t \<longleftrightarrow> T_Country t \<in> set (BlockedCountries req))
          \<and> BlockedCount (Summary resp) + AllowedCount (Summary resp) = TotalTests (Summary resp)
          \<and> TotalTests (Summary resp) = int (length (TestCountries req))
          \<and> BlockedCount (Summary resp)
               = int (length (filter (\<lambda>c. c \<in> set (BlockedCountries req)) (TestCountries req)))
          \<and> (BlockedCountries req = [''RU'', ''CN''] \<and> TestCountries req = [''RU'', ''US'']
                \<longrightarrow> BlockedCount (Summary resp) = 1 \<and> AllowedCount (Summary resp) = 1)))"
proof (intro conjI impI)
  show "fst (api_validate_blocking wd g w r) = g"
    unfolding api_validate_blocking_def
    by (rule enableCORS_frame) (rule handleValidateBlocking_frame)
next
  assume a: "Method r = ''POST'' \<and> DecodeValidationRequest (Body r) = Inr req"
  then have m: "Method r \<noteq> ''OPTIONS''" by auto
  let ?B = "BlockedCountries req" and ?T = "TestCountries req"
  let ?resp = "\<lparr>TestResults = map (\<lambda>country.
         \<lparr>T_Country = country, T_Blocked = contains ?B country,
          T_Status = getStatusMessage (contains ?B country),
          T_ResponseTime = 50 + int (length country) * 10\<rparr>) ?T,
        Summary = \<lparr>BlockedCount = int (length (filter (contains ?B) ?T)),
                   AllowedCount = int (length (filter (\<lambda>c. \<not> contains ?B c) ?T)),
                   TotalTests = int (length ?T)\<rparr>\<rparr>"
  have w: "written (snd (api_validate_blocking wd g w r)) = written w @ [ValidationBody ?resp]"
    using a handleValidateBlocking_written[of r req]
    by (simp add: api_validate_blocking_def enableCORS_passes[OF m] Header_Set_def)
  show "\<exists>resp. written (snd (api_validate_blocking wd g w r)) = written w @ [ValidationBody resp]
          \<and> map T_Country (TestResults resp) = TestCountries req
          \<and> (\<forall>t \<in> set (TestResults resp).
                T_Blocked t \<longleftrightarrow> T_Country t \<in> set (BlockedCountries req))
          \<and> BlockedCount (Summary resp) + AllowedCount (Summary resp) = TotalTests (Summary resp)
          \<and> TotalTests (Summary resp) = int (length (TestCountries req))
          \<and> BlockedCount (Summary resp)
               = int (length (filter (\<lambda>c. c \<in> set (BlockedCountries req)) (TestCountries req)))
          \<and> (BlockedCountries req = [''RU'', ''CN''] \<and> TestCountries req = [''RU'', ''US'']
                \<longrightarrow> BlockedCount (Summary resp) = 1 \<and> AllowedCount (Summary resp) = 1)"
  proof (intro exI[of _ ?resp] conjI impI)
    show "written (snd (api_validate_blocking wd g w r)) = written w @ [ValidationBody ?resp]"
      by (rule w)
    show "map T_Country (TestResults ?resp) = ?T"
      by (simp add: comp_def)
    show "\<forall>t \<in> set (TestResults ?resp). T_Blocked t \<longleftrightarrow> T_Country t \<in> set ?B"
      by (auto simp: contains_iff)
    show "BlockedCount (Summary ?resp) + AllowedCount (Summary ?resp) = TotalTests (Summary ?resp)"
      by (simp add: filter_partition_length)
    show "TotalTests (Summary ?resp) = int (length ?T)" by simp
    show "BlockedCount (Summary ?resp) = int (length (filter (\<lambda>c. c \<in> set ?B) ?T))"
      by (simp add: contains_iff[abs_def])
  next
    assume "?B = [''RU'', ''CN''] \<and> ?T = [''RU'', ''US'']"
    then show "BlockedCount (Summary ?resp) = 1" by simp
  next
    assume "?B = [''RU'', ''CN''] \<and> ?T = [''RU'', ''US'']"
    then show "AllowedCount (Summary ?resp) = 1" by simp
  qed
qed

theorem validate_blocking_offline_witness:
  "Method (postRequest (Some (JObject
      [(''blocked_countries'', JArray [JString ''RU'', JString ''CN'']),
       (''test_countries'', JArray [JString ''RU'', JString ''US''])]))) = ''POST''
   \<and> DecodeValidationRequest (Body (postRequest (Some (JObject
      [(''blocked_countries'', JArray [JString ''RU'', JString ''CN'']),
       (''test_countries'', JArray [JString ''RU'', JString ''US''])]))))
     = Inr \<lparr>BlockedCountries = [''RU'', ''CN''], TestCountries = [''RU'', ''US'']\<rparr>
   \<and> fst (api_validate_blocking offline \<lparr>blockedCountriesList = [''DE'']\<rparr> newResponseWriter
        (postRequest (Some (JObject
          [(''blocked_countries'', JArray [JString ''RU'', JString ''CN'']),
           (''test_countries'', JArray [JString ''RU'', JString ''US''])]))))
       = \<lparr>blockedCountriesList = [''DE'']\<rparr>
   \<and> (\<exists>resp. written (snd (api_validate_blocking offline \<lparr>blockedCountriesList = [''DE'']\<rparr>
          newResponseWriter
          (postRequest (Some (JObject
            [(''blocked_countries'', JArray [JString ''RU'', JString ''CN'']),
             (''test_countries'', JArray [JString ''RU'', JString ''US''])])))))
          = [ValidationBody resp]
        \<and> map T_Country (TestResults resp) = [''RU'', ''US'']
        \<and> BlockedCount (Summary resp) = 1 \<and> AllowedCount (Summary resp) = 1
        \<and> TotalTests (Summary resp) = 2)
   \<and> DecodeValidationRequest (Body (postRequest (Some (JObject
        [(''bloc'' @ [CHR 0xE2, CHR 0x84, CHR 0xAA] @ ''ed_countries'', JArray [JString ''RU'']),
         (''test_countries'', JArray [JString ''RU''])]))))
       = Inr \<lparr>BlockedCountries = [''RU''], TestCountries = [''RU'']\<rparr>
   \<and> (\<exists>resp. written (snd (api_validate_blocking offline \<lparr>blockedCountriesList = [''DE'']\<rparr>
          newResponseWriter
          (postRequest (Some (JObject
            [(''bloc'' @ [CHR 0xE2, CHR 0x84, CHR 0xAA] @ ''ed_countries'', JArray [JString ''RU'']),
             (''test_countries'', JArray [JString ''RU''])])))))
          = [ValidationBody resp]
        \<and> map T_Blocked (TestResults resp) = [True]
        \<and> BlockedCount (Summary resp) = 1 \<and> AllowedCount (Summary resp) = 0)"
  using validate_blocking_offline
    [of offline "\<lparr>blockedCountriesList = [''DE'']\<rparr>" newResponseWriter
        "postRequest (Some (JObject
          [(''blocked_countries'', JArray [JString ''RU'', JString ''CN'']),
           (''test_countries'', JArray [JString ''RU'', JString ''US''])]))"
        "\<lparr>BlockedCountries = [''RU'', ''CN''], TestCountries = [''RU'', ''US'']\<rparr>"]
    validate_blocking_offline
    [of offline "\<lparr>blockedCountriesList = [''DE'']\<rparr>" newResponseWriter
        "postRequest (Some (JObject
          [(''bloc'' @ [CHR 0xE2, CHR 0x84, CHR 0xAA] @ ''ed_countries'', JArray [JString ''RU'']),
           (''test_countries'', JArray [JString ''RU''])]))"
        "\<lparr>BlockedCountries = [''RU''], TestCountries = [''RU'']\<rparr>"]
    decode_validation_folded_key
  by (auto simp: postRequest_def decode_validation_example newResponseWriter_def
        simp del: append.simps)

end
